theory Spec2Isabelle
  imports Complex_Main "HOL-Library.Word"
begin

section \<open>Python values used by server.py\<close>

text \<open>
  A Python \<open>str\<close> is a sequence of Unicode code points, a \<open>bytes\<close> object a sequence of
  octets. Code points are natural numbers; ASCII literals of the source are written
  with \<open>py\<close>.
\<close>

type_synonym pystr = "nat list"
type_synonym byte = "8 word"
type_synonym pybytes = "byte list"

definition py :: "string \<Rightarrow> pystr" where
  "py s = map of_char s"

text \<open>The values \<open>r.json()\<close> can return.\<close>

datatype json =
    JNull
  | JBool bool
  | JInt int
  | JFloat rat
  | JStr pystr
  | JArr "json list"
  | JObj "(pystr \<times> json) list"

text \<open>
  The exceptions (subclasses of \<open>Exception\<close>) that the handlers raise, catch or let
  through. \<open>EngineError\<close> stands for any other exception raised inside an external
  library or engine, with its rendered message.
\<close>

datatype pyexn =
    HTTPException nat pystr
  | KeyError json
  | IndexError
  | TypeError
  | AttributeError
  | UnicodeEncodeError
  | UnicodeDecodeError
  | FileNotFoundError pystr
  | FileExistsError
  | CalledProcessError int
  | EngineError pystr

subsection \<open>str.strip, str.splitlines, str.encode\<close>

text \<open>\<open>str.isspace\<close> on one code point (CPython's whitespace table).\<close>

definition py_isspace :: "nat \<Rightarrow> bool" where
  "py_isspace c \<longleftrightarrow>
     (0x09 \<le> c \<and> c \<le> 0x0D) \<or> (0x1C \<le> c \<and> c \<le> 0x1F) \<or> c = 0x20 \<or> c = 0x85 \<or>
     c = 0xA0 \<or> c = 0x1680 \<or> (0x2000 \<le> c \<and> c \<le> 0x200A) \<or> c = 0x2028 \<or>
     c = 0x2029 \<or> c = 0x202F \<or> c = 0x205F \<or> c = 0x3000"

definition py_strip :: "pystr \<Rightarrow> pystr" where
  "py_strip s = rev (dropWhile py_isspace (rev (dropWhile py_isspace s)))"

text \<open>The line boundaries of \<open>str.splitlines\<close>; \<open>\r\n\<close> counts as one.\<close>

definition py_islinebreak :: "nat \<Rightarrow> bool" where
  "py_islinebreak c \<longleftrightarrow>
     (0x0A \<le> c \<and> c \<le> 0x0D) \<or> (0x1C \<le> c \<and> c \<le> 0x1E) \<or> c = 0x85 \<or>
     c = 0x2028 \<or> c = 0x2029"

fun splitlines_from :: "pystr \<Rightarrow> pystr \<Rightarrow> pystr list" where
  "splitlines_from cur [] = (if cur = [] then [] else [cur])"
| "splitlines_from cur (c # cs) =
     (if py_islinebreak c then
        (case cs of
           [] \<Rightarrow> [cur]
         | d # ds \<Rightarrow>
             if c = 0x0D \<and> d = 0x0A then cur # splitlines_from [] ds
             else cur # splitlines_from [] (d # ds))
      else splitlines_from (cur @ [c]) cs)"

definition py_splitlines :: "pystr \<Rightarrow> pystr list" where
  "py_splitlines s = splitlines_from [] s"

text \<open>\<open>sep.join(xs)\<close>.\<close>

fun py_join :: "pystr \<Rightarrow> pystr list \<Rightarrow> pystr" where
  "py_join sep [] = []"
| "py_join sep [x] = x"
| "py_join sep (x # y # ys) = x @ sep @ py_join sep (y # ys)"

text \<open>
  \<open>str.encode("utf-8")\<close> with the default strict error handler: a surrogate code
  point raises \<open>UnicodeEncodeError\<close>.
\<close>

definition utf8_char :: "nat \<Rightarrow> pyexn + pybytes" where
  "utf8_char c =
     (if c < 0x80 then Inr [of_nat c]
      else if c < 0x800 then Inr [of_nat (0xC0 + c div 64), of_nat (0x80 + c mod 64)]
      else if 0xD800 \<le> c \<and> c \<le> 0xDFFF then Inl UnicodeEncodeError
      else if c < 0x10000 then
        Inr [of_nat (0xE0 + c div 4096), of_nat (0x80 + (c div 64) mod 64),
             of_nat (0x80 + c mod 64)]
      else
        Inr [of_nat (0xF0 + c div 262144), of_nat (0x80 + (c div 4096) mod 64),
             of_nat (0x80 + (c div 64) mod 64), of_nat (0x80 + c mod 64)])"

fun utf8_encode :: "pystr \<Rightarrow> pyexn + pybytes" where
  "utf8_encode [] = Inr []"
| "utf8_encode (c # cs) =
     (case utf8_char c of
        Inl e \<Rightarrow> Inl e
      | Inr bs \<Rightarrow> (case utf8_encode cs of Inl e \<Rightarrow> Inl e | Inr rest \<Rightarrow> Inr (bs @ rest)))"

subsection \<open>range and slicing\<close>

text \<open>\<open>range(start, stop, step)\<close> for a positive step, as a list.\<close>

function py_range :: "nat \<Rightarrow> nat \<Rightarrow> nat \<Rightarrow> nat list" where
  "py_range i stop step =
     (if 0 < step \<and> i < stop then i # py_range (i + step) stop step else [])"
  by pat_completeness auto
termination
  by (relation "measure (\<lambda>(i, stop, step). stop - i)") auto

declare py_range.simps [simp del]

text \<open>\<open>s[i:j]\<close> for non-negative bounds: out-of-range bounds are clipped.\<close>

definition py_slice :: "'a list \<Rightarrow> nat \<Rightarrow> nat \<Rightarrow> 'a list" where
  "py_slice s i j = take (j - i) (drop i s)"

section \<open>Server-sent event framing\<close>

text \<open>\<open>_sse_format(event, data)\<close>, lines 76-85.\<close>

definition sse_format :: "pystr option \<Rightarrow> pystr \<Rightarrow> pyexn + pybytes" where
  "sse_format event data =
     (let out0 = (case event of
                    None \<Rightarrow> []
                  | Some ev \<Rightarrow> if ev \<noteq> [] then [py ''event: '' @ ev] else []);
          lines = (if py_splitlines data \<noteq> [] then py_splitlines data else [[]]);
          out1 = out0 @ map (\<lambda>line. py ''data: '' @ line) lines;
          out2 = out1 @ [[]]
      in utf8_encode (py_join [0x0A] out2 @ [0x0A]))"


section \<open>The world outside the process\<close>

text \<open>
  The request body sent to the chat backend, and the response object that
  \<open>httpx\<close> hands back: its methods are modelled by the outcomes they have.
\<close>

record payload =
  p_model :: pystr
  p_messages :: "(pystr \<times> pystr) list"
  p_temperature :: rat
  p_stream :: bool

record response =
  status_code :: nat
  raise_for_status :: "pyexn option"
  json_body :: "pyexn + json"

text \<open>
  What \<open>whisper.transcribe\<close> returns: a lazy generator of segments (the texts it
  will produce, and the exception that ends the iteration early, if any) and the
  info object.
\<close>

datatype segments = Segments "pystr list" "pyexn option"

record whisper_info =
  language :: pystr
  duration :: rat

text \<open>
  Observable actions, in the order they happen: calls into the three engines, file
  deletions, and chunks handed to the consumer of a streamed response.
\<close>

datatype event =
    HttpGet pystr nat
  | HttpPost pystr payload nat
  | Transcribe pystr pystr
  | Subprocess "pystr list"
  | Unlink pystr
  | Yield pybytes

record world =
  files :: "pystr \<Rightarrow> pybytes option"
  trace :: "event list"

text \<open>
  Process-wide configuration, fixed at start-up (lines 12-20). \<open>PIPER_BIN\<close> is the
  result of \<open>shutil.which\<close>: \<open>None\<close> or a path.
\<close>

record config =
  LMSTUDIO_URL :: pystr
  LMSTUDIO_MODEL_DEFAULT :: pystr
  WHISPER_MODEL_NAME :: pystr
  WHISPER_COMPUTE_TYPE :: pystr
  PIPER_BIN :: "pystr option"
  PIPER_VOICE :: pystr
  tempdir :: pystr

text \<open>
  The engines and libraries are opaque: each is a function of the world at the time
  of the call and of its arguments. \<open>subprocess_run\<close> gives the outcome of
  \<open>subprocess.run(..., check=True)\<close> and the files the process leaves behind;
  \<open>temp_names\<close> is the sequence of random names \<open>tempfile\<close> draws; \<open>str_exn\<close> is
  \<open>str(e)\<close>.
\<close>

record engines =
  httpx_get :: "world \<Rightarrow> pystr \<Rightarrow> pyexn + response"
  httpx_post :: "world \<Rightarrow> pystr \<Rightarrow> payload \<Rightarrow> pyexn + response"
  whisper_transcribe :: "world \<Rightarrow> pystr \<Rightarrow> pystr \<Rightarrow> pyexn + (segments \<times> whisper_info)"
  subprocess_run :: "world \<Rightarrow> pystr list \<Rightarrow> pyexn option \<times> (pystr \<Rightarrow> pybytes option)"
  temp_names :: "world \<Rightarrow> pystr list"
  str_exn :: "pyexn \<Rightarrow> pystr"

subsection \<open>Computations that may raise and change the world\<close>

type_synonym 'a io = "world \<Rightarrow> (pyexn + 'a) \<times> world"

definition ret :: "'a \<Rightarrow> 'a io" where
  "ret x = (\<lambda>w. (Inr x, w))"

definition raise :: "pyexn \<Rightarrow> 'a io" where
  "raise e = (\<lambda>w. (Inl e, w))"

definition bind :: "'a io \<Rightarrow> ('a \<Rightarrow> 'b io) \<Rightarrow> 'b io" where
  "bind m f = (\<lambda>w. case m w of (Inl e, w') \<Rightarrow> (Inl e, w') | (Inr x, w') \<Rightarrow> f x w')"

text \<open>\<open>try: m  except Exception as e: h e\<close>.\<close>

definition try_except :: "'a io \<Rightarrow> (pyexn \<Rightarrow> 'a io) \<Rightarrow> 'a io" where
  "try_except m h = (\<lambda>w. case m w of (Inl e, w') \<Rightarrow> h e w' | (Inr x, w') \<Rightarrow> (Inr x, w'))"

definition lift :: "pyexn + 'a \<Rightarrow> 'a io" where
  "lift r = (\<lambda>w. (r, w))"

definition log :: "event \<Rightarrow> unit io" where
  "log ev = (\<lambda>w. (Inr (), w\<lparr>trace := trace w @ [ev]\<rparr>))"

fun for_each :: "'a list \<Rightarrow> ('a \<Rightarrow> unit io) \<Rightarrow> unit io" where
  "for_each [] body = ret ()"
| "for_each (x # xs) body = bind (body x) (\<lambda>_. for_each xs body)"

subsection \<open>Files\<close>

definition os_path_exists :: "pystr \<Rightarrow> world \<Rightarrow> bool" where
  "os_path_exists p w = (files w p \<noteq> None)"

text \<open>
  \<open>tempfile.NamedTemporaryFile(suffix=..., delete=False)\<close>: the first candidate
  \<open>dir/tmp<name><suffix>\<close> that does not exist yet is created empty; after
  \<open>TMP_MAX\<close> candidates \<open>FileExistsError\<close> is raised. A suffix of \<open>None\<close> is the
  empty suffix.
\<close>

fun mkstemp_inner :: "(pystr \<Rightarrow> pybytes option) \<Rightarrow> pystr \<Rightarrow> pystr \<Rightarrow> pystr list \<Rightarrow> pyexn + pystr" where
  "mkstemp_inner fs pre suf [] = Inl FileExistsError"
| "mkstemp_inner fs pre suf (n # ns) =
     (if fs (pre @ n @ suf) \<noteq> None then mkstemp_inner fs pre suf ns
      else Inr (pre @ n @ suf))"

definition TMP_MAX :: nat where
  "TMP_MAX = 10000"

definition NamedTemporaryFile :: "config \<Rightarrow> engines \<Rightarrow> pystr option \<Rightarrow> pystr io" where
  "NamedTemporaryFile cfg eng suffix = (\<lambda>w.
     case mkstemp_inner (files w) (tempdir cfg @ py ''/tmp'')
            (case suffix of None \<Rightarrow> [] | Some s \<Rightarrow> s) (take TMP_MAX (temp_names eng w)) of
       Inl e \<Rightarrow> (Inl e, w)
     | Inr path \<Rightarrow> (Inr path, w\<lparr>files := (files w)(path \<mapsto> [])\<rparr>))"

definition file_write :: "pystr \<Rightarrow> pybytes \<Rightarrow> unit io" where
  "file_write path raw = (\<lambda>w. (Inr (), w\<lparr>files := (files w)(path \<mapsto> raw)\<rparr>))"

definition os_unlink :: "pystr \<Rightarrow> unit io" where
  "os_unlink path = (\<lambda>w.
     if files w path = None then (Inl (FileNotFoundError path), w)
     else (Inr (), w\<lparr>files := (files w)(path := None), trace := trace w @ [Unlink path]\<rparr>))"

subsection \<open>Engine calls\<close>

definition http_get :: "engines \<Rightarrow> pystr \<Rightarrow> nat \<Rightarrow> response io" where
  "http_get eng url timeout = (\<lambda>w. (httpx_get eng w url, w\<lparr>trace := trace w @ [HttpGet url timeout]\<rparr>))"

definition http_post :: "engines \<Rightarrow> pystr \<Rightarrow> payload \<Rightarrow> nat \<Rightarrow> response io" where
  "http_post eng url body timeout =
     (\<lambda>w. (httpx_post eng w url body, w\<lparr>trace := trace w @ [HttpPost url body timeout]\<rparr>))"

definition transcribe :: "engines \<Rightarrow> pystr \<Rightarrow> pystr \<Rightarrow> (segments \<times> whisper_info) io" where
  "transcribe eng path lang =
     (\<lambda>w. (whisper_transcribe eng w path lang, w\<lparr>trace := trace w @ [Transcribe path lang]\<rparr>))"

definition run_checked :: "engines \<Rightarrow> pystr list \<Rightarrow> unit io" where
  "run_checked eng args = (\<lambda>w.
     case subprocess_run eng w args of
       (r, fs') \<Rightarrow> ((case r of None \<Rightarrow> Inr () | Some e \<Rightarrow> Inl e),
                   w\<lparr>files := fs', trace := trace w @ [Subprocess args]\<rparr>))"

text \<open>\<open>"".join(seg.text for seg in segments)\<close> consumes the lazy generator.\<close>

fun join_segments :: "segments \<Rightarrow> pyexn + pystr" where
  "join_segments (Segments ts None) = Inr (concat ts)"
| "join_segments (Segments ts (Some e)) = Inl e"


section \<open>The handlers of server.py\<close>

subsection \<open>Small Python operations the handlers use\<close>

text \<open>\<open>str(n)\<close> for a non-negative integer.\<close>

function str_nat :: "nat \<Rightarrow> pystr" where
  "str_nat n = (if n < 10 then [48 + n] else str_nat (n div 10) @ [48 + n mod 10])"
  by pat_completeness auto
termination
  by (relation "measure (\<lambda>n. n)") auto

declare str_nat.simps [simp del]

text \<open>\<open>x[key]\<close> for a string key, \<open>x[0]\<close>, and \<open>x.strip()\<close>, on a JSON value.\<close>

fun getitem_str :: "json \<Rightarrow> pystr \<Rightarrow> pyexn + json" where
  "getitem_str (JObj kvs) key =
     (case map_of kvs key of None \<Rightarrow> Inl (KeyError (JStr key)) | Some v \<Rightarrow> Inr v)"
| "getitem_str other key = Inl TypeError"

fun getitem_0 :: "json \<Rightarrow> pyexn + json" where
  "getitem_0 (JArr []) = Inl IndexError"
| "getitem_0 (JArr (x # xs)) = Inr x"
| "getitem_0 (JStr []) = Inl IndexError"
| "getitem_0 (JStr (c # cs)) = Inr (JStr [c])"
| "getitem_0 (JObj kvs) = Inl (KeyError (JInt 0))"
| "getitem_0 other = Inl TypeError"

fun strip_method :: "json \<Rightarrow> pyexn + pystr" where
  "strip_method (JStr s) = Inr (py_strip s)"
| "strip_method other = Inl AttributeError"

definition sum_bind :: "'e + 'a \<Rightarrow> ('a \<Rightarrow> 'e + 'b) \<Rightarrow> 'e + 'b" where
  "sum_bind r f = (case r of Inl e \<Rightarrow> Inl e | Inr x \<Rightarrow> f x)"

text \<open>\<open>data["choices"][0]["message"]["content"].strip()\<close>.\<close>

definition first_choice_content :: "json \<Rightarrow> pyexn + pystr" where
  "first_choice_content data =
     sum_bind (getitem_str data (py ''choices'')) (\<lambda>choices.
     sum_bind (getitem_0 choices) (\<lambda>choice.
     sum_bind (getitem_str choice (py ''message'')) (\<lambda>message.
     sum_bind (getitem_str message (py ''content'')) strip_method)))"

text \<open>Truthiness of \<open>PIPER_BIN\<close>, and \<open>PIPER_BIN or ""\<close>.\<close>

definition bool_PIPER_BIN :: "config \<Rightarrow> bool" where
  "bool_PIPER_BIN cfg = (case PIPER_BIN cfg of None \<Rightarrow> False | Some b \<Rightarrow> b \<noteq> [])"

definition PIPER_BIN_or_empty :: "config \<Rightarrow> pystr" where
  "PIPER_BIN_or_empty cfg = (case PIPER_BIN cfg of None \<Rightarrow> [] | Some b \<Rightarrow> b)"

text \<open>
  The test of lines 46, 152 and 211:
  \<open>PIPER_BIN and PIPER_VOICE and os.path.exists(PIPER_VOICE)\<close>.
\<close>

definition piper_ok :: "config \<Rightarrow> world \<Rightarrow> bool" where
  "piper_ok cfg w \<longleftrightarrow> bool_PIPER_BIN cfg \<and> PIPER_VOICE cfg \<noteq> [] \<and> os_path_exists (PIPER_VOICE cfg) w"

subsection \<open>/health\<close>

record lm_studio_report =
  lm_url :: pystr
  lm_ok :: bool
  lm_note :: pystr
  lm_default_model :: pystr

record whisper_report =
  wh_model :: pystr
  wh_compute :: pystr
  wh_ok :: bool

record piper_report =
  pi_bin :: pystr
  pi_voice :: pystr
  pi_ok :: bool

record health_report =
  mode :: pystr
  lm_studio :: lm_studio_report
  whisper :: whisper_report
  piper :: piper_report

text \<open>Lines 37-44: the probe; the pair is \<open>(lm_ok, lm_msg)\<close>.\<close>

definition health_probe :: "config \<Rightarrow> engines \<Rightarrow> (bool \<times> pystr) io" where
  "health_probe cfg eng =
     try_except
       (bind (http_get eng (LMSTUDIO_URL cfg @ py ''/v1/models'') 3) (\<lambda>r.
          ret (status_code r = 200,
               if status_code r = 200 then py ''ok'' else py ''HTTP '' @ str_nat (status_code r))))
       (\<lambda>e. ret (False, py ''error: '' @ str_exn eng e))"

definition health :: "config \<Rightarrow> engines \<Rightarrow> health_report io" where
  "health cfg eng =
     bind (health_probe cfg eng) (\<lambda>(lm_ok_v, lm_msg). (\<lambda>w.
       ret \<lparr>mode = py ''offline'',
            lm_studio = \<lparr>lm_url = LMSTUDIO_URL cfg, lm_ok = lm_ok_v, lm_note = lm_msg,
                         lm_default_model = LMSTUDIO_MODEL_DEFAULT cfg\<rparr>,
            whisper = \<lparr>wh_model = WHISPER_MODEL_NAME cfg, wh_compute = WHISPER_COMPUTE_TYPE cfg,
                       wh_ok = True\<rparr>,
            piper = \<lparr>pi_bin = PIPER_BIN_or_empty cfg, pi_voice = PIPER_VOICE cfg,
                     pi_ok = piper_ok cfg w\<rparr>\<rparr> w))"

subsection \<open>The chat call\<close>

text \<open>
  The body of the \<open>try\<close> blocks of lines 61-70, 104-114 and 197-206, which are the
  same: build the payload, post it, \<open>raise_for_status\<close>, parse, extract, strip.
\<close>

definition chat_payload :: "pystr \<Rightarrow> pystr \<Rightarrow> payload" where
  "chat_payload model prompt =
     \<lparr>p_model = model, p_messages = [(py ''user'', prompt)], p_temperature = 2 / 10,
      p_stream = False\<rparr>"

definition chat_completion :: "config \<Rightarrow> engines \<Rightarrow> pystr \<Rightarrow> pystr \<Rightarrow> pystr io" where
  "chat_completion cfg eng prompt model =
     bind (http_post eng (LMSTUDIO_URL cfg @ py ''/v1/chat/completions'')
             (chat_payload model prompt) 120) (\<lambda>r.
     bind (lift (case raise_for_status r of None \<Rightarrow> Inr () | Some e \<Rightarrow> Inl e)) (\<lambda>_.
     bind (lift (json_body r)) (\<lambda>data.
     lift (first_choice_content data))))"

subsection \<open>/chat\<close>

record chat_response =
  chat_provider :: pystr
  chat_model :: pystr
  chat_text :: pystr

definition chat :: "config \<Rightarrow> engines \<Rightarrow> pystr \<Rightarrow> pystr \<Rightarrow> chat_response io" where
  "chat cfg eng prompt model =
     try_except
       (bind (chat_completion cfg eng prompt model) (\<lambda>text.
          ret \<lparr>chat_provider = py ''lmstudio'', chat_model = model, chat_text = text\<rparr>))
       (\<lambda>e. raise (HTTPException 500 (py ''LM Studio error: '' @ str_exn eng e)))"

subsection \<open>/chat_stream\<close>

text \<open>\<open>yield _sse_format(event, data)\<close>.\<close>

definition yield_sse :: "pystr \<Rightarrow> pystr \<Rightarrow> unit io" where
  "yield_sse event data =
     (case sse_format (Some event) data of Inl e \<Rightarrow> raise e | Inr frame \<Rightarrow> log (Yield frame))"

definition CHUNK :: nat where
  "CHUNK = 40"

text \<open>Lines 120-127: what the generator does once it has the reply.\<close>

definition gen_tokens :: "pystr \<Rightarrow> unit io" where
  \<open>gen_tokens text =
     bind (for_each (py_range 0 (length text) CHUNK)
             (\<lambda>i. yield_sse (py ''token'') (py_slice text i (i + CHUNK)))) (\<lambda>_.
     bind (yield_sse (py ''done'') (py ''{"status":"ok"}'')) (\<lambda>_.
     yield_sse (py ''end'') (py ''{"status":"complete"}'')))\<close>

text \<open>Lines 115-118: the \<open>except\<close> branch.\<close>

definition gen_failed :: "engines \<Rightarrow> pyexn \<Rightarrow> unit io" where
  \<open>gen_failed eng e =
     bind (yield_sse (py ''error'')
             (py ''{"message": "LM Studio error: '' @ str_exn eng e @ py ''"}'')) (\<lambda>_.
     yield_sse (py ''end'') (py ''{"status":"error"}''))\<close>

text \<open>The generator \<open>gen\<close> of lines 97-127, run to its end.\<close>

definition gen :: "config \<Rightarrow> engines \<Rightarrow> pystr \<Rightarrow> pystr \<Rightarrow> unit io" where
  \<open>gen cfg eng prompt model =
     bind (yield_sse (py ''start'') (py ''{"status":"starting"}'')) (\<lambda>_. (\<lambda>w.
       case chat_completion cfg eng prompt model w of
         (Inl e, w') \<Rightarrow> gen_failed eng e w'
       | (Inr text, w') \<Rightarrow> gen_tokens text w'))\<close>


subsection \<open>/stt\<close>

text \<open>An \<open>UploadFile\<close>: its \<open>filename\<close> (which may be \<open>None\<close>) and the bytes \<open>read()\<close> returns.\<close>

record upload =
  filename :: "pystr option"
  content :: pybytes

record stt_response =
  stt_text :: pystr
  stt_language :: pystr
  stt_duration :: rat

text \<open>Lines 135-138 and 185-188: stage the upload in a temporary file.\<close>

definition stage_upload :: "config \<Rightarrow> engines \<Rightarrow> upload \<Rightarrow> pystr io" where
  "stage_upload cfg eng file =
     bind (NamedTemporaryFile cfg eng (filename file)) (\<lambda>path.
     bind (file_write path (content file)) (\<lambda>_.
     ret path))"

definition stt :: "config \<Rightarrow> engines \<Rightarrow> upload \<Rightarrow> pystr \<Rightarrow> stt_response io" where
  "stt cfg eng file lang =
     bind (stage_upload cfg eng file) (\<lambda>path.
     bind (transcribe eng path lang) (\<lambda>(segs, info).
     bind (os_unlink path) (\<lambda>_.
     bind (lift (join_segments segs)) (\<lambda>joined.
     ret \<lparr>stt_text = py_strip joined, stt_language = language info,
          stt_duration = duration info\<rparr>))))"

subsection \<open>/tts\<close>

datatype streaming_response = StreamingResponse pystr pystr

text \<open>\<open>try: m  except subprocess.CalledProcessError as e: h e\<close>.\<close>

fun is_CalledProcessError :: "pyexn \<Rightarrow> bool" where
  "is_CalledProcessError (CalledProcessError rc) = True"
| "is_CalledProcessError other = False"

definition try_except_CalledProcessError :: "'a io \<Rightarrow> (pyexn \<Rightarrow> 'a io) \<Rightarrow> 'a io" where
  "try_except_CalledProcessError m h = (\<lambda>w.
     case m w of
       (Inl e, w') \<Rightarrow> if is_CalledProcessError e then h e w' else (Inl e, w')
     | (Inr x, w') \<Rightarrow> (Inr x, w'))"

definition piper_args :: "config \<Rightarrow> pystr \<Rightarrow> pystr \<Rightarrow> pystr list" where
  "piper_args cfg wav_path text =
     [PIPER_BIN_or_empty cfg, py ''-m'', PIPER_VOICE cfg, py ''-f'', wav_path, py ''-t'', text]"

text \<open>
  Lines 152-175. The handler returns the response object; the body is produced later
  by \<open>wav_iter\<close>, given here as a computation of its own on the output path.
\<close>

definition tts :: "config \<Rightarrow> engines \<Rightarrow> pystr \<Rightarrow> streaming_response io" where
  "tts cfg eng text = (\<lambda>w.
     if \<not> piper_ok cfg w then
       raise (HTTPException 501 (py ''Piper TTS not configured. Set PIPER_BIN and PIPER_VOICE.'')) w
     else
       bind (NamedTemporaryFile cfg eng (Some (py ''.wav''))) (\<lambda>wav_path.
       bind (try_except_CalledProcessError
               (run_checked eng (piper_args cfg wav_path text))
               (\<lambda>e. raise (HTTPException 500 (py ''Piper failed: '' @ str_exn eng e)))) (\<lambda>_.
       ret (StreamingResponse wav_path (py ''audio/wav'')))) w)"

text \<open>
  The loop of lines 168-172 over the open file: \<open>f.read(8192)\<close> returns the next
  8192 bytes from the current position, fewer at the end of the file.
\<close>

function wav_loop :: "pybytes \<Rightarrow> nat \<Rightarrow> unit io" where
  "wav_loop data pos w =
     (let chunk = py_slice data pos (pos + 8192) in
      if chunk = [] then (Inr (), w)
      else wav_loop data (pos + 8192) (w\<lparr>trace := trace w @ [Yield chunk]\<rparr>))"
  by pat_completeness auto
termination
  by (relation "measure (\<lambda>(data, pos, w). length data - pos)") (auto simp: py_slice_def)

declare wav_loop.simps [simp del]

definition wav_iter :: "pystr \<Rightarrow> unit io" where
  "wav_iter wav_path = (\<lambda>w.
     case files w wav_path of
       None \<Rightarrow> (Inl (FileNotFoundError wav_path), w)
     | Some data \<Rightarrow> bind (wav_loop data 0) (\<lambda>_. os_unlink wav_path) w)"

subsection \<open>/voice-chat\<close>

text \<open>\<open>base64.b64encode\<close> (RFC 4648, standard alphabet, \<open>=\<close> padding).\<close>

definition b64_char :: "nat \<Rightarrow> byte" where
  "b64_char i =
     of_nat (if i < 26 then 65 + i
             else if i < 52 then 97 + (i - 26)
             else if i < 62 then 48 + (i - 52)
             else if i = 62 then 43 else 47)"

fun b64encode :: "pybytes \<Rightarrow> pybytes" where
  "b64encode [] = []"
| "b64encode [a] =
     [b64_char (unat a div 4), b64_char ((unat a mod 4) * 16), 61, 61]"
| "b64encode [a, b] =
     [b64_char (unat a div 4), b64_char ((unat a mod 4) * 16 + unat b div 16),
      b64_char ((unat b mod 16) * 4), 61]"
| "b64encode (a # b # c # rest) =
     [b64_char (unat a div 4), b64_char ((unat a mod 4) * 16 + unat b div 16),
      b64_char ((unat b mod 16) * 4 + unat c div 64), b64_char (unat c mod 64)]
     @ b64encode rest"

text \<open>\<open>bytes.decode("ascii")\<close>.\<close>

fun decode_ascii :: "pybytes \<Rightarrow> pyexn + pystr" where
  "decode_ascii [] = Inr []"
| "decode_ascii (b # bs) =
     (if unat b < 128 then
        (case decode_ascii bs of Inl e \<Rightarrow> Inl e | Inr rest \<Rightarrow> Inr (unat b # rest))
      else Inl UnicodeDecodeError)"

text \<open>\<open>with open(wav_path, "rb") as f: ... f.read()\<close>.\<close>

definition file_read :: "pystr \<Rightarrow> pybytes io" where
  "file_read path = (\<lambda>w.
     case files w path of None \<Rightarrow> (Inl (FileNotFoundError path), w) | Some data \<Rightarrow> (Inr data, w))"

record voice_chat_response =
  vc_text :: pystr
  vc_mime :: pystr
  vc_audio_base64 :: pystr
  vc_prompt :: pystr

text \<open>Lines 185-193: staging and transcription.\<close>

definition voice_chat_stt :: "config \<Rightarrow> engines \<Rightarrow> upload \<Rightarrow> pystr \<Rightarrow> pystr io" where
  "voice_chat_stt cfg eng file lang =
     bind (stage_upload cfg eng file) (\<lambda>apath.
     bind (transcribe eng apath lang) (\<lambda>(segs, info).
     bind (os_unlink apath) (\<lambda>_.
     bind (lift (join_segments segs)) (\<lambda>joined.
     ret (py_strip joined)))))"

text \<open>Lines 196-208: the chat call.\<close>

definition voice_chat_reply :: "config \<Rightarrow> engines \<Rightarrow> pystr \<Rightarrow> pystr \<Rightarrow> pystr io" where
  "voice_chat_reply cfg eng user_text model =
     try_except (chat_completion cfg eng user_text model)
       (\<lambda>e. raise (HTTPException 500 (py ''LM Studio error: '' @ str_exn eng e)))"

text \<open>Lines 211-221: synthesis and encoding.\<close>

definition voice_chat_tts :: "config \<Rightarrow> engines \<Rightarrow> pystr \<Rightarrow> pystr io" where
  "voice_chat_tts cfg eng reply = (\<lambda>w.
     if \<not> piper_ok cfg w then
       raise (HTTPException 501 (py ''Piper TTS not configured for /voice-chat.'')) w
     else
       bind (NamedTemporaryFile cfg eng (Some (py ''.wav''))) (\<lambda>wav_path.
       try_except
         (bind (run_checked eng (piper_args cfg wav_path reply)) (\<lambda>_.
          bind (file_read wav_path) (\<lambda>data.
          bind (lift (decode_ascii (b64encode data))) (\<lambda>b64.
          bind (os_unlink wav_path) (\<lambda>_.
          ret b64)))))
         (\<lambda>e. raise (HTTPException 500 (py ''Piper TTS error: '' @ str_exn eng e)))) w)"

definition voice_chat :: "config \<Rightarrow> engines \<Rightarrow> upload \<Rightarrow> pystr \<Rightarrow> pystr \<Rightarrow> voice_chat_response io" where
  "voice_chat cfg eng file model lang =
     bind (voice_chat_stt cfg eng file lang) (\<lambda>user_text.
     bind (voice_chat_reply cfg eng user_text model) (\<lambda>reply.
     bind (voice_chat_tts cfg eng reply) (\<lambda>b64.
     ret \<lparr>vc_text = reply, vc_mime = py ''audio/wav'', vc_audio_base64 = b64,
          vc_prompt = user_text\<rparr>)))"


text \<open>
  The decoding a client applies to \<open>audio_base64\<close>: the inverse alphabet, and the
  decoder of RFC 4648 text in groups of four characters, as \<open>base64.b64decode\<close> reads
  what \<open>b64encode\<close> writes; anything else is \<open>binascii.Error\<close>.
\<close>

definition b64_index :: "nat \<Rightarrow> nat option" where
  "b64_index c =
     (if 65 \<le> c \<and> c \<le> 90 then Some (c - 65)
      else if 97 \<le> c \<and> c \<le> 122 then Some (c - 71)
      else if 48 \<le> c \<and> c \<le> 57 then Some (c + 4)
      else if c = 43 then Some 62
      else if c = 47 then Some 63
      else None)"

fun b64decode :: "pystr \<Rightarrow> pyexn + pybytes" where
  "b64decode [] = Inr []"
| "b64decode (c0 # c1 # c2 # c3 # rest) =
     (case (b64_index c0, b64_index c1) of
        (Some i0, Some i1) \<Rightarrow>
          if rest = [] \<and> c2 = 61 \<and> c3 = 61 then Inr [of_nat (i0 * 4 + i1 div 16)]
          else
            (case b64_index c2 of
               None \<Rightarrow> Inl (EngineError (py ''Incorrect padding''))
             | Some i2 \<Rightarrow>
                 if rest = [] \<and> c3 = 61 then
                   Inr [of_nat (i0 * 4 + i1 div 16), of_nat ((i1 mod 16) * 16 + i2 div 4)]
                 else
                   (case b64_index c3 of
                      None \<Rightarrow> Inl (EngineError (py ''Incorrect padding''))
                    | Some i3 \<Rightarrow>
                        (case b64decode rest of
                           Inl e \<Rightarrow> Inl e
                         | Inr bs \<Rightarrow>
                             Inr (of_nat (i0 * 4 + i1 div 16) # of_nat ((i1 mod 16) * 16 + i2 div 4)
                                  # of_nat ((i2 mod 4) * 64 + i3) # bs))))
      | other \<Rightarrow> Inl (EngineError (py ''Incorrect padding'')))"
| "b64decode other = Inl (EngineError (py ''Incorrect padding''))"

section \<open>Notions used to state the properties\<close>

text \<open>The chunks \<open>f.read(8192)\<close> returns in turn on a file holding \<open>data\<close>.\<close>

definition wav_chunks :: "pybytes \<Rightarrow> pybytes list" where
  "wav_chunks data = map (\<lambda>i. py_slice data i (i + 8192)) (py_range 0 (length data) 8192)"


text \<open>
  The pieces the loop of lines 122-124 cuts the reply into, the strings that
  \<open>encode("utf-8")\<close> accepts (no surrogate code point), and the frame
  \<open>_sse_format\<close> returns for an event name and a payload when it does not raise.
\<close>

definition token_pieces :: "pystr \<Rightarrow> pystr list" where
  "token_pieces text = map (\<lambda>i. py_slice text i (i + CHUNK)) (py_range 0 (length text) CHUNK)"

definition utf8_ok :: "pystr \<Rightarrow> bool" where
  "utf8_ok s = list_all (\<lambda>c. \<not> (0xD800 \<le> c \<and> c \<le> 0xDFFF)) s"

definition frame :: "pystr \<Rightarrow> pystr \<Rightarrow> pybytes" where
  "frame ev d = (case sse_format (Some ev) d of Inl e \<Rightarrow> [] | Inr b \<Rightarrow> b)"

text \<open>The world once the generator has yielded its \<open>start\<close> frame.\<close>

definition after_start :: "world \<Rightarrow> world" where
  \<open>after_start w = w\<lparr>trace := trace w @ [Yield (frame (py ''start'') (py ''{"status":"starting"}''))]\<rparr>\<close>

text \<open>The chunks handed to the consumer, in order, and the engine calls, in order.\<close>

fun yielded :: "event list \<Rightarrow> pybytes list" where
  "yielded [] = []"
| "yielded (Yield b # evs) = b # yielded evs"
| "yielded (ev # evs) = yielded evs"

fun is_engine_call :: "event \<Rightarrow> bool" where
  "is_engine_call (Unlink p) = False"
| "is_engine_call (Yield b) = False"
| "is_engine_call ev = True"

subsection \<open>The consumer of an event stream\<close>

text \<open>
  What a client of the stream recovers from one frame: the frame is cut at line
  feeds; the event name is the value of its \<open>event:\<close> line, the payload is the
  values of its \<open>data:\<close> lines joined by line feeds.
\<close>

definition ascii :: "string \<Rightarrow> pybytes" where
  "ascii s = map of_char s"

fun split_lf :: "pybytes \<Rightarrow> pybytes \<Rightarrow> pybytes list" where
  "split_lf cur [] = [cur]"
| "split_lf cur (b # bs) = (if b = 0x0A then cur # split_lf [] bs else split_lf (cur @ [b]) bs)"

definition strip_prefix :: "pybytes \<Rightarrow> pybytes \<Rightarrow> pybytes option" where
  "strip_prefix p l = (if take (length p) l = p then Some (drop (length p) l) else None)"

definition field_values :: "pybytes \<Rightarrow> pybytes \<Rightarrow> pybytes list" where
  "field_values name f = List.map_filter (strip_prefix name) (split_lf [] f)"

fun join_lf :: "pybytes list \<Rightarrow> pybytes" where
  "join_lf [] = []"
| "join_lf [x] = x"
| "join_lf (x # y # ys) = x @ [0x0A] @ join_lf (y # ys)"

definition sse_event_name :: "pybytes \<Rightarrow> pybytes" where
  "sse_event_name f = (case field_values (ascii ''event: '') f of [] \<Rightarrow> [] | v # vs \<Rightarrow> v)"

definition sse_data :: "pybytes \<Rightarrow> pybytes" where
  "sse_data f = join_lf (field_values (ascii ''data: '') f)"

text \<open>The payloads of the \<open>token\<close> events of a stream, concatenated.\<close>

definition received_text :: "pybytes list \<Rightarrow> pybytes" where
  "received_text frames =
     concat (map sse_data (filter (\<lambda>f. sse_event_name f = ascii ''token'') frames))"

subsection \<open>A concrete installation\<close>

definition example_config :: config where
  "example_config =
     \<lparr>LMSTUDIO_URL = py ''http://127.0.0.1:1234'', LMSTUDIO_MODEL_DEFAULT = py ''default'',
      WHISPER_MODEL_NAME = py ''base'', WHISPER_COMPUTE_TYPE = py ''auto'',
      PIPER_BIN = Some (py ''/usr/bin/piper''), PIPER_VOICE = py ''/voices/en.onnx'',
      tempdir = py ''/tmp''\<rparr>"

text \<open>The body of a well-formed chat completion whose first choice says \<open>text\<close>.\<close>

definition completion_json :: "pystr \<Rightarrow> json" where
  "completion_json text =
     JObj [(py ''choices'',
            JArr [JObj [(py ''message'',
                         JObj [(py ''role'', JStr (py ''assistant'')),
                               (py ''content'', JStr text)])]])]"

definition ok_response :: "json \<Rightarrow> response" where
  "ok_response body = \<lparr>status_code = 200, raise_for_status = None, json_body = Inr body\<rparr>"

text \<open>
  Engines that all work: the backend answers every chat call with \<open>reply\<close>, the
  transcription is \<open>heard\<close>, and the synthesizer writes \<open>wav\<close> to the path that
  follows \<open>-f\<close>.
\<close>

definition working_engines :: "pystr \<Rightarrow> pystr \<Rightarrow> pybytes \<Rightarrow> engines" where
  "working_engines reply heard wav =
     \<lparr>httpx_get = (\<lambda>w url. Inr (ok_response JNull)),
      httpx_post = (\<lambda>w url body. Inr (ok_response (completion_json reply))),
      whisper_transcribe = (\<lambda>w path lang. Inr (Segments [heard] None, \<lparr>language = lang, duration = 2\<rparr>)),
      subprocess_run = (\<lambda>w args. case args of
          [bin, m, voice, f, wav_path, t, text] \<Rightarrow> (None, (files w)(wav_path \<mapsto> wav))
        | other \<Rightarrow> (Some (CalledProcessError 2), files w)),
      temp_names = (\<lambda>w. [py ''k3x9q2ab'', py ''p0w4zz7c'']),
      str_exn = (\<lambda>e. case e of EngineError msg \<Rightarrow> msg | other \<Rightarrow> py ''error'')\<rparr>"

text \<open>A world in which the voice file of \<open>example_config\<close> exists, and one without it.\<close>

definition voice_world :: world where
  "voice_world = \<lparr>files = [py ''/voices/en.onnx'' \<mapsto> [1, 2, 3]], trace = []\<rparr>"

definition bare_world :: world where
  "bare_world = \<lparr>files = Map.empty, trace = []\<rparr>"

text \<open>The same installation with the chat backend unreachable.\<close>

definition backend_down :: engines where
  "backend_down =
     (working_engines [] [] [])\<lparr>httpx_post :=
        (\<lambda>w url body. Inl (EngineError (py ''All connection attempts failed'')))\<rparr>"

text \<open>
  A reply of 43 characters whose line break is the 40th character:
  \<open>"The quick brown fox jumps over the lazy\ndog"\<close>.
\<close>

definition lazy_dog :: pystr where
  "lazy_dog = py ''The quick brown fox jumps over the lazy'' @ [0x0A] @ py ''dog''"

text \<open>The same installation with a transcription engine that rejects the audio.\<close>

definition transcription_fails :: engines where
  "transcription_fails =
     (working_engines [] [] [])\<lparr>whisper_transcribe :=
        (\<lambda>w path lang. Inl (EngineError (py ''Invalid data found when processing input'')))\<rparr>"

section \<open>The chunking loop\<close>

lemma concat_slices:
  "0 < k \<Longrightarrow> concat (map (\<lambda>i. py_slice s i (i + k)) (py_range i (length s) k)) = drop i s"
proof (induction i "length s" k arbitrary: rule: py_range.induct)
  case (1 i step)
  show ?case
  proof (cases "i < length s")
    case True
    have "drop i s = take step (drop i s) @ drop (i + step) s"
      by (metis append_take_drop_id drop_drop add.commute)
    with 1 True show ?thesis
      by (subst py_range.simps) (simp add: py_slice_def)
  next
    case False
    then show ?thesis by (subst py_range.simps) simp
  qed
qed

lemma div_step:
  assumes "0 < (k::nat)" "i < n"
  shows "(n - i + (k - 1)) div k = Suc ((n - (i + k) + (k - 1)) div k)"
proof (cases "i + k \<le> n")
  case True
  then obtain d where n: "n = i + k + d" by (auto simp: le_iff_add)
  have 1: "n - i + (k - 1) = k + (d + (k - 1))" and 2: "n - (i + k) + (k - 1) = d + (k - 1)"
    unfolding n by simp_all
  show ?thesis unfolding 1 2 using assms(1) by (simp only: div_add_self1)
next
  case False
  with assms have a: "n - (i + k) = 0" and b: "k * 1 \<le> n - i + (k - 1)"
    and c: "n - i + (k - 1) < k * Suc 1"
    by simp_all
  have "(n - i + (k - 1)) div k = 1"
    using b c by (rule div_nat_eqI)
  moreover have "(n - (i + k) + (k - 1)) div k = 0"
    unfolding a using assms(1) by simp
  ultimately show ?thesis by (simp only: One_nat_def)
qed

lemma length_py_range:
  "0 < k \<Longrightarrow> length (py_range i n k) = (n - i + (k - 1)) div k"
proof (induction i n k rule: py_range.induct)
  case (1 i n k)
  show ?case
  proof (cases "i < n")
    case True
    with 1 have "py_range i n k = i # py_range (i + k) n k"
      by (subst py_range.simps) simp
    moreover have "length (py_range (i + k) n k) = (n - (i + k) + (k - 1)) div k"
      using 1 True by blast
    ultimately show ?thesis
      using div_step [OF "1.prems" True] by (simp only: list.size length_Cons)
  next
    case False
    with 1 show ?thesis by (subst py_range.simps) (simp)
  qed
qed

lemma py_range_less: "x \<in> set (py_range i n k) \<Longrightarrow> x < n"
proof (induction i n k rule: py_range.induct)
  case (1 i n k)
  show ?case
  proof (cases "0 < k \<and> i < n")
    case True
    with "1.prems" have "x = i \<or> x \<in> set (py_range (i + k) n k)"
      by (subst (asm) py_range.simps) simp
    with True "1.IH" show ?thesis by blast
  next
    case False
    with "1.prems" show ?thesis by (subst (asm) py_range.simps) simp
  qed
qed

lemma py_range_Nil: "py_range i n k = [] \<longleftrightarrow> \<not> (0 < k \<and> i < n)"
  by (subst py_range.simps) simp

lemma slices_bounds:
  assumes "0 < k" "p \<in> set (map (\<lambda>i. py_slice s i (i + k)) (py_range i (length s) k))"
  shows "0 < length p \<and> length p \<le> k"
proof -
  from assms(2) obtain j where j: "j \<in> set (py_range i (length s) k)" and p: "p = py_slice s j (j + k)"
    by auto
  from j have "j < length s" by (rule py_range_less)
  with assms(1) show ?thesis unfolding p py_slice_def by simp
qed

lemma butlast_slices:
  "0 < k \<Longrightarrow> p \<in> set (butlast (map (\<lambda>i. py_slice s i (i + k)) (py_range i (length s) k))) \<Longrightarrow> length p = k"
proof (induction i "length s" k arbitrary: p rule: py_range.induct)
  case (1 i k)
  show ?case
  proof (cases "i < length s")
    case True
    with "1.prems"(1) have unf: "py_range i (length s) k = i # py_range (i + k) (length s) k"
      by (subst py_range.simps) simp
    show ?thesis
    proof (cases "py_range (i + k) (length s) k = []")
      case True
      with "1.prems"(2) unf show ?thesis by simp
    next
      case False
      then have lt: "i + k < length s" by (simp add: py_range_Nil)
      from False "1.prems"(2) unf
      have "p = py_slice s i (i + k) \<or>
          p \<in> set (butlast (map (\<lambda>i. py_slice s i (i + k)) (py_range (i + k) (length s) k)))"
        by simp
      then show ?thesis
      proof
        assume "p = py_slice s i (i + k)"
        with lt show ?thesis by (simp add: py_slice_def)
      next
        assume "p \<in> set (butlast (map (\<lambda>i. py_slice s i (i + k)) (py_range (i + k) (length s) k)))"
        with "1.hyps" True "1.prems"(1) show ?thesis by blast
      qed
    qed
  next
    case False
    then have "py_range i (length s) k = []" by (simp add: py_range_Nil)
    with "1.prems" show ?thesis by simp
  qed
qed

section \<open>Encodable strings and frames\<close>

lemma utf8_ok_Nil [simp]: "utf8_ok []"
  by (simp add: utf8_ok_def)

lemma utf8_ok_Cons [simp]: "utf8_ok (c # cs) \<longleftrightarrow> \<not> (0xD800 \<le> c \<and> c \<le> 0xDFFF) \<and> utf8_ok cs"
  by (simp add: utf8_ok_def)

lemma utf8_ok_append [simp]: "utf8_ok (a @ b) \<longleftrightarrow> utf8_ok a \<and> utf8_ok b"
  by (simp add: utf8_ok_def)

lemma utf8_ok_set: "utf8_ok s \<longleftrightarrow> (\<forall>c\<in>set s. \<not> (0xD800 \<le> c \<and> c \<le> 0xDFFF))"
  by (simp add: utf8_ok_def list_all_iff)

lemma of_char_less_256: "(of_char c :: nat) < 256"
  using mod_less_divisor [of 256 "of_char c :: nat"] unfolding of_char_mod_256 by simp

lemma utf8_ok_py [simp]: "utf8_ok (py s)"
proof -
  have "\<not> (0xD800 \<le> (of_char c :: nat) \<and> (of_char c :: nat) \<le> 0xDFFF)" for c :: char
    using of_char_less_256 [of c] by linarith
  then show ?thesis by (simp add: utf8_ok_set py_def)
qed

lemma utf8_encode_ok: "utf8_ok s \<Longrightarrow> \<exists>bs. utf8_encode s = Inr bs"
proof (induction s)
  case Nil
  then show ?case by simp
next
  case (Cons c cs)
  then obtain rest where "utf8_encode cs = Inr rest" by auto
  moreover from Cons.prems have "\<exists>bs. utf8_char c = Inr bs"
    by (simp add: utf8_char_def)
  ultimately show ?case by auto
qed

lemma utf8_ok_take: "utf8_ok s \<Longrightarrow> utf8_ok (take n s)"
  by (auto simp: utf8_ok_set dest: in_set_takeD)

lemma utf8_ok_drop: "utf8_ok s \<Longrightarrow> utf8_ok (drop n s)"
  by (auto simp: utf8_ok_set dest: in_set_dropD)

lemma utf8_ok_slice: "utf8_ok s \<Longrightarrow> utf8_ok (py_slice s i j)"
  by (simp add: py_slice_def utf8_ok_take utf8_ok_drop)

lemma utf8_ok_join: "utf8_ok sep \<Longrightarrow> \<forall>x\<in>set xs. utf8_ok x \<Longrightarrow> utf8_ok (py_join sep xs)"
  by (induction sep xs rule: py_join.induct) simp_all

lemma utf8_ok_splitlines_from:
  "utf8_ok cur \<Longrightarrow> utf8_ok s \<Longrightarrow> l \<in> set (splitlines_from cur s) \<Longrightarrow> utf8_ok l"
proof (induction cur s arbitrary: l rule: splitlines_from.induct)
  case (1 cur)
  then show ?case by (simp split: if_splits)
next
  case (2 cur c cs)
  show ?case
  proof (cases "py_islinebreak c")
    case False
    with "2.prems" have "l \<in> set (splitlines_from (cur @ [c]) cs)" by simp
    moreover from "2.prems" have "utf8_ok (cur @ [c])" "utf8_ok cs" by simp_all
    ultimately show ?thesis using "2.IH"(3) False by blast
  next
    case True
    show ?thesis
    proof (cases cs)
      case Nil
      with True "2.prems" show ?thesis by simp
    next
      case (Cons d ds)
      show ?thesis
      proof (cases "c = 0x0D \<and> d = 0x0A")
        case T: True
        with True Cons "2.prems" have "l = cur \<or> l \<in> set (splitlines_from [] ds)" by simp
        moreover from "2.prems" Cons have "utf8_ok ds" by simp
        ultimately show ?thesis using "2.IH"(1) [OF True Cons T] "2.prems"(1) by auto
      next
        case F: False
        with True Cons "2.prems" have "l = cur \<or> l \<in> set (splitlines_from [] (d # ds))" by auto
        moreover from "2.prems" Cons have "utf8_ok (d # ds)" by simp
        ultimately show ?thesis using "2.IH"(2) [OF True Cons F] "2.prems"(1) by auto
      qed
    qed
  qed
qed

lemma utf8_ok_splitlines: "utf8_ok s \<Longrightarrow> \<forall>l\<in>set (py_splitlines s). utf8_ok l"
  unfolding py_splitlines_def using utf8_ok_splitlines_from [of "[]" s] by simp

lemma sse_format_ok:
  assumes "utf8_ok ev" "utf8_ok d"
  shows "sse_format (Some ev) d = Inr (frame ev d)"
proof -
  define lines where "lines = (if py_splitlines d \<noteq> [] then py_splitlines d else [[]])"
  have L: "\<forall>l\<in>set lines. utf8_ok l"
    using utf8_ok_splitlines [OF assms(2)] by (simp add: lines_def)
  define out where "out = (if ev \<noteq> [] then [py ''event: '' @ ev] else [])
       @ map (\<lambda>line. py ''data: '' @ line) lines @ [[]]"
  have "\<forall>x\<in>set out. utf8_ok x"
    using L assms(1) by (auto simp: out_def)
  then have "utf8_ok (py_join [0x0A] out @ [0x0A])"
    by (simp add: utf8_ok_join)
  then obtain bs where "utf8_encode (py_join [0x0A] out @ [0x0A]) = Inr bs"
    using utf8_encode_ok by blast
  moreover have "sse_format (Some ev) d = utf8_encode (py_join [0x0A] out @ [0x0A])"
    by (simp add: sse_format_def Let_def out_def lines_def)
  ultimately show ?thesis by (simp add: frame_def)
qed

section \<open>The generator of /chat_stream\<close>

lemma yield_sse_ok:
  "utf8_ok ev \<Longrightarrow> utf8_ok d \<Longrightarrow>
   yield_sse ev d w = (Inr (), w\<lparr>trace := trace w @ [Yield (frame ev d)]\<rparr>)"
  by (simp add: yield_sse_def sse_format_ok log_def)

lemma for_each_yield:
  "utf8_ok ev \<Longrightarrow> \<forall>x\<in>set xs. utf8_ok (f x) \<Longrightarrow>
   for_each xs (\<lambda>i. yield_sse ev (f i)) w =
     (Inr (), w\<lparr>trace := trace w @ map (\<lambda>i. Yield (frame ev (f i))) xs\<rparr>)"
proof (induction xs arbitrary: w)
  case Nil
  then show ?case by (simp add: ret_def)
next
  case (Cons x xs)
  then show ?case by (simp add: bind_def yield_sse_ok)
qed

lemma utf8_ok_token_pieces: "utf8_ok text \<Longrightarrow> \<forall>p\<in>set (token_pieces text). utf8_ok p"
  by (simp add: token_pieces_def utf8_ok_slice)

lemma gen_tokens_ok:
  assumes "utf8_ok text"
  shows \<open>gen_tokens text w =
     (Inr (), w\<lparr>trace := trace w
        @ map (\<lambda>p. Yield (frame (py ''token'') p)) (token_pieces text)
        @ [Yield (frame (py ''done'') (py ''{"status":"ok"}'')),
           Yield (frame (py ''end'') (py ''{"status":"complete"}''))]\<rparr>)\<close>
proof -
  have "for_each (py_range 0 (length text) CHUNK)
          (\<lambda>i. yield_sse (py ''token'') (py_slice text i (i + CHUNK))) w =
        (Inr (), w\<lparr>trace := trace w @ map (\<lambda>p. Yield (frame (py ''token'') p)) (token_pieces text)\<rparr>)"
    using for_each_yield [of "py ''token''" "py_range 0 (length text) CHUNK"
        "\<lambda>i. py_slice text i (i + CHUNK)" w] assms
    by (simp add: utf8_ok_slice token_pieces_def comp_def)
  then show ?thesis
    by (simp add: gen_tokens_def bind_def yield_sse_ok)
qed

lemma gen_failed_ok:
  assumes "utf8_ok (str_exn eng e)"
  shows \<open>gen_failed eng e w =
     (Inr (), w\<lparr>trace := trace w
        @ [Yield (frame (py ''error'') (py ''{"message": "LM Studio error: '' @ str_exn eng e @ py ''"}'')),
           Yield (frame (py ''end'') (py ''{"status":"error"}''))]\<rparr>)\<close>
  using assms by (simp add: gen_failed_def bind_def yield_sse_ok)

lemma gen_unfold:
  \<open>gen cfg eng prompt model w =
     (case chat_completion cfg eng prompt model (after_start w) of
        (Inl e, w') \<Rightarrow> gen_failed eng e w'
      | (Inr text, w') \<Rightarrow> gen_tokens text w')\<close>
  by (simp add: gen_def bind_def yield_sse_ok after_start_def)

lemma chat_completion_world:
  "chat_completion cfg eng prompt model w = (r, w') \<Longrightarrow>
   w' = w\<lparr>trace := trace w @ [HttpPost (LMSTUDIO_URL cfg @ py ''/v1/chat/completions'')
                                  (chat_payload model prompt) 120]\<rparr>"
  by (auto simp: chat_completion_def bind_def http_post_def lift_def
      split: sum.splits option.splits prod.splits)

lemmas eval_defs = py_def ascii_def utf8_char_def py_splitlines_def py_islinebreak_def
  frame_def sse_format_def sse_data_def sse_event_name_def field_values_def strip_prefix_def
  List.map_filter_simps

lemma utf8_encode_append:
  "utf8_encode a = Inr x \<Longrightarrow> utf8_encode b = Inr y \<Longrightarrow> utf8_encode (a @ b) = Inr (x @ y)"
  by (induction a arbitrary: x) (auto split: sum.splits)

lemma split_lf_append:
  "0x0A \<notin> set a \<Longrightarrow> split_lf cur (a @ 0x0A # rest) = (cur @ a) # split_lf [] rest"
  by (induction a arbitrary: cur) auto

lemma py_join_Cons: "xs \<noteq> [] \<Longrightarrow> py_join sep (x # xs) = x @ sep @ py_join sep xs"
  by (cases xs) simp_all

lemma frame_shape:
  assumes d: "utf8_ok d" and ev: "ev \<noteq> []" and enc: "utf8_encode ev = Inr evb"
  shows "\<exists>rest. frame ev d = ascii ''event: '' @ evb @ 0x0A # rest"
proof -
  define lines where "lines = (if py_splitlines d \<noteq> [] then py_splitlines d else [[]])"
  define tail where "tail = py_join [0x0A] (map (\<lambda>line. py ''data: '' @ line) lines @ [[]]) @ [0x0A]"
  have L: "\<forall>l\<in>set lines. utf8_ok l"
    using utf8_ok_splitlines [OF d] by (simp add: lines_def)
  have "utf8_ok tail"
    using L by (auto simp: tail_def intro!: utf8_ok_join)
  then obtain tb where tb: "utf8_encode tail = Inr tb"
    using utf8_encode_ok by blast
  have 1: "utf8_encode (py ''event: '') = Inr (ascii ''event: '')"
    by (simp add: py_def ascii_def utf8_char_def)
  have 2: "utf8_encode [0x0A] = Inr [0x0A]"
    by (simp add: utf8_char_def)
  have "utf8_encode ((py ''event: '' @ ev) @ [0x0A] @ tail) = Inr ((ascii ''event: '' @ evb) @ [0x0A] @ tb)"
    by (intro utf8_encode_append 1 2 enc tb)
  moreover have "sse_format (Some ev) d = utf8_encode ((py ''event: '' @ ev) @ [0x0A] @ tail)"
    using ev by (simp add: sse_format_def Let_def tail_def lines_def py_join_Cons)
  ultimately show ?thesis by (simp add: frame_def)
qed

lemma sse_event_name_frame:
  assumes "utf8_ok d" "ev \<noteq> []" "utf8_encode ev = Inr evb" "0x0A \<notin> set evb"
  shows "sse_event_name (frame ev d) = evb"
proof -
  from frame_shape [OF assms(1-3)] obtain rest
    where f: "frame ev d = (ascii ''event: '' @ evb) @ 0x0A # rest" by auto
  have "0x0A \<notin> set (ascii ''event: '' @ evb)"
    using assms(4) by (simp add: ascii_def)
  then have "split_lf [] (frame ev d) = (ascii ''event: '' @ evb) # split_lf [] rest"
    unfolding f using split_lf_append [of "ascii ''event: '' @ evb" "[]" rest] by simp
  then show ?thesis
    by (simp add: sse_event_name_def field_values_def List.map_filter_simps strip_prefix_def)
qed

lemma event_names:
  assumes "utf8_ok d"
  shows "sse_event_name (frame (py ''start'') d) = ascii ''start''"
    and "sse_event_name (frame (py ''token'') d) = ascii ''token''"
    and "sse_event_name (frame (py ''done'') d) = ascii ''done''"
    and "sse_event_name (frame (py ''end'') d) = ascii ''end''"
    and "sse_event_name (frame (py ''error'') d) = ascii ''error''"
  by (rule sse_event_name_frame [OF assms]; simp add: py_def ascii_def utf8_char_def)+

lemma length_token_pieces: "length (token_pieces R) = (length R + 39) div 40"
  using length_py_range [of CHUNK 0 "length R"] by (simp add: token_pieces_def CHUNK_def)




lemma token_pieces_Nil: "token_pieces [] = []"
  by (simp add: token_pieces_def py_range.simps)

lemma gen_success:
  assumes "chat_completion cfg eng prompt model (after_start w) = (Inr R, w1)" and "utf8_ok R"
  shows \<open>gen cfg eng prompt model w =
      (Inr (), w1\<lparr>trace := trace w1
         @ map (\<lambda>p. Yield (frame (py ''token'') p)) (token_pieces R)
         @ [Yield (frame (py ''done'') (py ''{"status":"ok"}'')),
            Yield (frame (py ''end'') (py ''{"status":"complete"}''))]\<rparr>)\<close>
  using assms by (simp add: gen_unfold gen_tokens_ok)

lemma gen_failure:
  assumes "chat_completion cfg eng prompt model (after_start w) = (Inl e, w1)"
    and "utf8_ok (str_exn eng e)"
  shows \<open>gen cfg eng prompt model w =
      (Inr (), w1\<lparr>trace := trace w1
        @ [Yield (frame (py ''error'') (py ''{"message": "LM Studio error: '' @ str_exn eng e @ py ''"}'')),
           Yield (frame (py ''end'') (py ''{"status":"error"}''))]\<rparr>)\<close>
  using assms by (simp add: gen_unfold gen_failed_ok)


lemma first_choice_content_completion:
  "first_choice_content (completion_json text) = Inr (py_strip text)"
  by (simp add: first_choice_content_def completion_json_def sum_bind_def py_def)

lemma chat_completion_working:
  "chat_completion cfg (working_engines reply heard wav) prompt model w =
     (Inr (py_strip reply),
      w\<lparr>trace := trace w @ [HttpPost (LMSTUDIO_URL cfg @ py ''/v1/chat/completions'')
                               (chat_payload model prompt) 120]\<rparr>)"
  by (simp add: chat_completion_def bind_def http_post_def lift_def working_engines_def
      ok_response_def first_choice_content_completion)



lemma yielded_append: "yielded (a @ b) = yielded a @ yielded b"
  by (induction a rule: yielded.induct) simp_all

lemma yielded_map_Yield: "yielded (map Yield fs) = fs"
  by (induction fs) simp_all

lemma end_frames:
  \<open>sse_data (frame (py ''end'') (py ''{"status":"error"}'')) = ascii ''{"status":"error"}''\<close>
  \<open>sse_data (frame (py ''end'') (py ''{"status":"complete"}'')) = ascii ''{"status":"complete"}''\<close>
  by (simp_all add: eval_defs)

text \<open>
  C2, as the code has it. Whatever the chat call does, the generator yields \<open>start\<close>
  first and stops normally. If the call fails (with a cause whose description is UTF-8
  text) it then yields \<open>error\<close> and \<open>end\<close> with status error, and no \<open>token\<close>. If
  the call succeeds (with a reply that is UTF-8 text) it yields \<open>ceil(L / 40)\<close>
  \<open>token\<close> frames for a trimmed reply of length \<open>L\<close>, which is none when the reply is
  empty, then \<open>done\<close>, then \<open>end\<close> with status complete. The event names are the ones
  a consumer reads off the frames.
\<close>

theorem chat_stream_event_order:
  assumes run: "chat_completion cfg eng prompt model (after_start w) = (r, w1)"
    and enc: "case r of Inl e \<Rightarrow> utf8_ok (str_exn eng e) | Inr text \<Rightarrow> utf8_ok text"
  shows \<open>\<exists>frames.
      gen cfg eng prompt model w = (Inr (), w1\<lparr>trace := trace w1 @ map Yield frames\<rparr>)
    \<and> yielded (trace w1) = yielded (trace w) @ [frame (py ''start'') (py ''{"status":"starting"}'')]
    \<and> sse_event_name (frame (py ''start'') (py ''{"status":"starting"}'')) = ascii ''start''
    \<and> (case r of
          Inl e \<Rightarrow>
            frames = [frame (py ''error'') (py ''{"message": "LM Studio error: '' @ str_exn eng e @ py ''"}''),
                      frame (py ''end'') (py ''{"status":"error"}'')]
          \<and> map sse_event_name frames = [ascii ''error'', ascii ''end'']
          \<and> sse_data (last frames) = ascii ''{"status":"error"}''
        | Inr text \<Rightarrow>
            frames = map (frame (py ''token'')) (token_pieces text)
                     @ [frame (py ''done'') (py ''{"status":"ok"}''),
                        frame (py ''end'') (py ''{"status":"complete"}'')]
          \<and> map sse_event_name frames =
              replicate ((length text + 39) div 40) (ascii ''token'') @ [ascii ''done'', ascii ''end'']
          \<and> sse_data (last frames) = ascii ''{"status":"complete"}'')\<close>
proof -
  have w1: "w1 = (after_start w)\<lparr>trace := trace (after_start w)
      @ [HttpPost (LMSTUDIO_URL cfg @ py ''/v1/chat/completions'') (chat_payload model prompt) 120]\<rparr>"
    using run by (rule chat_completion_world)
  have y: \<open>yielded (trace w1) = yielded (trace w) @ [frame (py ''start'') (py ''{"status":"starting"}'')]\<close>
    by (simp add: w1 after_start_def yielded_append)
  have s: \<open>sse_event_name (frame (py ''start'') (py ''{"status":"starting"}'')) = ascii ''start''\<close>
    by (simp add: event_names)
  show ?thesis
  proof (cases r)
    case (Inl e)
    with enc have ok: "utf8_ok (str_exn eng e)" by simp
    let ?frames = \<open>[frame (py ''error'') (py ''{"message": "LM Studio error: '' @ str_exn eng e @ py ''"}''),
                      frame (py ''end'') (py ''{"status":"error"}'')]\<close>
    have g: "gen cfg eng prompt model w = (Inr (), w1\<lparr>trace := trace w1 @ map Yield ?frames\<rparr>)"
      using gen_failure [OF run [unfolded Inl] ok] by simp
    have n: "map sse_event_name ?frames = [ascii ''error'', ascii ''end'']"
      using ok by (simp add: event_names)
    have d: \<open>sse_data (last ?frames) = ascii ''{"status":"error"}''\<close>
      by (simp add: end_frames)
    show ?thesis
      using g y s n d Inl by (intro exI [of _ "?frames"]) simp
  next
    case (Inr reply)
    with enc have ok: "utf8_ok reply" by simp
    let ?frames = \<open>map (frame (py ''token'')) (token_pieces reply)
                     @ [frame (py ''done'') (py ''{"status":"ok"}''),
                        frame (py ''end'') (py ''{"status":"complete"}'')]\<close>
    have g: "gen cfg eng prompt model w = (Inr (), w1\<lparr>trace := trace w1 @ map Yield ?frames\<rparr>)"
      using gen_success [OF run [unfolded Inr] ok] by (simp add: comp_def)
    have "map sse_event_name (map (frame (py ''token'')) (token_pieces reply))
        = replicate (length (token_pieces reply)) (ascii ''token'')"
      using utf8_ok_token_pieces [OF ok]
      by (simp add: map_replicate_const [symmetric] event_names cong: map_cong)
    then have n: "map sse_event_name ?frames =
        replicate ((length reply + 39) div 40) (ascii ''token'') @ [ascii ''done'', ascii ''end'']"
      by (simp add: event_names length_token_pieces)
    have d: \<open>sse_data (last ?frames) = ascii ''{"status":"complete"}''\<close>
      by (simp add: end_frames)
    show ?thesis
      using g y s n d Inr by (intro exI [of _ "?frames"]) simp
  qed
qed


lemma chat_completion_backend_down:
  "chat_completion cfg backend_down prompt model w =
     (Inl (EngineError (py ''All connection attempts failed'')),
      w\<lparr>trace := trace w @ [HttpPost (LMSTUDIO_URL cfg @ py ''/v1/chat/completions'')
                               (chat_payload model prompt) 120]\<rparr>)"
  by (simp add: chat_completion_def bind_def http_post_def backend_down_def working_engines_def)

text \<open>The backend is unreachable: \<open>start\<close>, \<open>error\<close>, \<open>end\<close>.\<close>

theorem chat_stream_event_order_witness:
  \<open>chat_completion example_config backend_down (py ''Hello'') (py ''default'') (after_start bare_world)
     = (Inl (EngineError (py ''All connection attempts failed'')),
        (after_start bare_world)\<lparr>trace := trace (after_start bare_world)
           @ [HttpPost (LMSTUDIO_URL example_config @ py ''/v1/chat/completions'')
                (chat_payload (py ''default'') (py ''Hello'')) 120]\<rparr>)
   \<and> utf8_ok (str_exn backend_down (EngineError (py ''All connection attempts failed'')))
   \<and> map sse_event_name (yielded (trace (snd (gen example_config backend_down
         (py ''Hello'') (py ''default'') bare_world))))
       = [ascii ''start'', ascii ''error'', ascii ''end'']\<close>
proof -
  let ?e = "EngineError (py ''All connection attempts failed'')"
  let ?w1 = "(after_start bare_world)\<lparr>trace := trace (after_start bare_world)
           @ [HttpPost (LMSTUDIO_URL example_config @ py ''/v1/chat/completions'')
                (chat_payload (py ''default'') (py ''Hello'')) 120]\<rparr>"
  have h1: "chat_completion example_config backend_down (py ''Hello'') (py ''default'')
      (after_start bare_world) = (Inl ?e, ?w1)"
    by (rule chat_completion_backend_down)
  have ok: "utf8_ok (str_exn backend_down ?e)"
    by (simp add: backend_down_def working_engines_def)
  then have h2: "case Inl ?e of Inl e \<Rightarrow> utf8_ok (str_exn backend_down e) | Inr t \<Rightarrow> utf8_ok t"
    by simp
  obtain frames where
    F: \<open>gen example_config backend_down (py ''Hello'') (py ''default'') bare_world
          = (Inr (), ?w1\<lparr>trace := trace ?w1 @ map Yield frames\<rparr>)
      \<and> yielded (trace ?w1) = yielded (trace bare_world) @ [frame (py ''start'') (py ''{"status":"starting"}'')]
      \<and> sse_event_name (frame (py ''start'') (py ''{"status":"starting"}'')) = ascii ''start''
      \<and> (frames = [frame (py ''error'') (py ''{"message": "LM Studio error: '' @ str_exn backend_down ?e @ py ''"}''),
                      frame (py ''end'') (py ''{"status":"error"}'')]
          \<and> map sse_event_name frames = [ascii ''error'', ascii ''end'']
          \<and> sse_data (last frames) = ascii ''{"status":"error"}'')\<close>
    using chat_stream_event_order [OF h1 h2, unfolded sum.case] ..
  note g = F [THEN conjunct1]
  note y = F [THEN conjunct2, THEN conjunct1]
  note s = F [THEN conjunct2, THEN conjunct2, THEN conjunct1]
  note n = F [THEN conjunct2, THEN conjunct2, THEN conjunct2, THEN conjunct2, THEN conjunct1]
  have "map sse_event_name (yielded (trace (snd (gen example_config backend_down
         (py ''Hello'') (py ''default'') bare_world))))
       = [ascii ''start'', ascii ''error'', ascii ''end'']"
    unfolding g using y s n by (simp add: yielded_append yielded_map_Yield bare_world_def)
  with h1 ok show ?thesis by (intro conjI)
qed

text \<open>
  C2 as stated asks for one or more \<open>token\<close> events on success. The backend call
  succeeds with an empty reply, and the stream is \<open>start\<close>, \<open>done\<close>, \<open>end\<close>.
\<close>

theorem chat_stream_event_order_counterexample:
  \<open>fst (chat_completion example_config (working_engines [] [] []) (py ''Hello'') (py ''default'')
          (after_start bare_world)) = Inr []
   \<and> map sse_event_name (yielded (trace (snd (gen example_config (working_engines [] [] [])
         (py ''Hello'') (py ''default'') bare_world))))
       = [ascii ''start'', ascii ''done'', ascii ''end'']\<close>
proof -
  have s: "py_strip [] = []" by (simp add: py_strip_def)
  have c: "chat_completion example_config (working_engines [] [] []) (py ''Hello'') (py ''default'')
          (after_start bare_world)
     = (Inr [], (after_start bare_world)\<lparr>trace := trace (after_start bare_world)
           @ [HttpPost (LMSTUDIO_URL example_config @ py ''/v1/chat/completions'')
                (chat_payload (py ''default'') (py ''Hello'')) 120]\<rparr>)"
    by (simp add: chat_completion_working s)
  have a: "fst (chat_completion example_config (working_engines [] [] []) (py ''Hello'') (py ''default'')
          (after_start bare_world)) = Inr []"
    by (simp only: c fst_conv)
  have "utf8_ok []" by simp
  from gen_success [OF c this]
  have b: "map sse_event_name (yielded (trace (snd (gen example_config (working_engines [] [] [])
         (py ''Hello'') (py ''default'') bare_world))))
       = [ascii ''start'', ascii ''done'', ascii ''end'']"
    by (simp add: token_pieces_Nil after_start_def bare_world_def event_names)
  from a b show ?thesis by (rule conjI)
qed


lemma lazy_dog_pieces:
  "token_pieces lazy_dog = [py ''The quick brown fox jumps over the lazy'' @ [0x0A], py ''dog'']"
  by (simp add: lazy_dog_def token_pieces_def py_def CHUNK_def py_range.simps py_slice_def)

lemma lazy_dog_strip: "py_strip lazy_dog = lazy_dog"
  by (simp add: lazy_dog_def py_strip_def py_def py_isspace_def)

lemma lazy_dog_ok: "utf8_ok lazy_dog"
  by (simp add: lazy_dog_def)

lemma lazy_dog_payloads:
  "sse_data (frame (py ''token'') (py ''The quick brown fox jumps over the lazy'' @ [0x0A]))
     = ascii ''The quick brown fox jumps over the lazy''"
  "sse_data (frame (py ''token'') (py ''dog'')) = ascii ''dog''"
  by (simp_all add: eval_defs)

text \<open>
  C1 at the reply \<open>lazy_dog\<close>. The backend call succeeds and the trimmed reply is
  \<open>lazy_dog\<close>, whose bytes contain the line feed; the first piece ends with that line
  feed, \<open>splitlines\<close> drops it, and the payloads a consumer recovers from the
  \<open>token\<close> frames concatenate to the reply without its line break.
\<close>

theorem chat_stream_drops_line_break:
  \<open>fst (chat_completion example_config (working_engines lazy_dog [] [])
          (py ''Hello'') (py ''default'') (after_start bare_world)) = Inr lazy_dog
   \<and> utf8_encode lazy_dog
     = Inr (ascii ''The quick brown fox jumps over the lazy'' @ [0x0A] @ ascii ''dog'')
   \<and> received_text (yielded (trace (snd (gen example_config (working_engines lazy_dog [] [])
          (py ''Hello'') (py ''default'') bare_world))))
     = ascii ''The quick brown fox jumps over the lazy'' @ ascii ''dog''\<close>
proof -
  have c: "chat_completion example_config (working_engines lazy_dog [] []) (py ''Hello'') (py ''default'')
          (after_start bare_world)
     = (Inr lazy_dog, (after_start bare_world)\<lparr>trace := trace (after_start bare_world)
           @ [HttpPost (LMSTUDIO_URL example_config @ py ''/v1/chat/completions'')
                (chat_payload (py ''default'') (py ''Hello'')) 120]\<rparr>)"
    by (simp only: chat_completion_working lazy_dog_strip)
  have a: "fst (chat_completion example_config (working_engines lazy_dog [] []) (py ''Hello'') (py ''default'')
          (after_start bare_world)) = Inr lazy_dog"
    by (simp only: c fst_conv)
  have b: "utf8_encode lazy_dog
     = Inr (ascii ''The quick brown fox jumps over the lazy'' @ [0x0A] @ ascii ''dog'')"
    by (simp add: lazy_dog_def py_def ascii_def utf8_char_def)
  have t: "ascii ''start'' \<noteq> ascii ''token''" "ascii ''done'' \<noteq> ascii ''token''"
    "ascii ''end'' \<noteq> ascii ''token''"
    by (simp_all add: ascii_def)
  from gen_success [OF c lazy_dog_ok]
  have d: "received_text (yielded (trace (snd (gen example_config (working_engines lazy_dog [] [])
          (py ''Hello'') (py ''default'') bare_world))))
     = ascii ''The quick brown fox jumps over the lazy'' @ ascii ''dog''"
    by (simp add: lazy_dog_pieces after_start_def bare_world_def received_text_def
        event_names t lazy_dog_payloads)
  from a b d show ?thesis by (intro conjI)
qed

section \<open>/chat\<close>

lemma sum_bind_Inr: "sum_bind r f = Inr y \<longleftrightarrow> (\<exists>x. r = Inr x \<and> f x = Inr y)"
  by (cases r) (simp_all add: sum_bind_def)

lemma getitem_str_Inr:
  "getitem_str x k = Inr v \<longleftrightarrow> (\<exists>kvs. x = JObj kvs \<and> map_of kvs k = Some v)"
  by (cases x) (auto split: option.splits)

lemma getitem_0_Inr:
  "getitem_0 x = Inr v \<longleftrightarrow>
     (\<exists>xs. x = JArr (v # xs)) \<or> (\<exists>c cs. x = JStr (c # cs) \<and> v = JStr [c])"
  by (cases x rule: getitem_0.cases) auto

lemma strip_method_Inr: "strip_method x = Inr t \<longleftrightarrow> (\<exists>s. x = JStr s \<and> t = py_strip s)"
  by (cases x) auto

lemma first_choice_content_Inr:
  "first_choice_content data = Inr t \<longleftrightarrow>
     (\<exists>kvs ckvs cs mkvs s.
        data = JObj kvs \<and> map_of kvs (py ''choices'') = Some (JArr (JObj ckvs # cs)) \<and>
        map_of ckvs (py ''message'') = Some (JObj mkvs) \<and>
        map_of mkvs (py ''content'') = Some (JStr s) \<and> t = py_strip s)"
  unfolding first_choice_content_def sum_bind_Inr getitem_str_Inr getitem_0_Inr strip_method_Inr
  by auto

text \<open>
  C3. For every prompt, model, engines and world, \<open>/chat\<close> makes exactly one call to the
  backend, a POST of the payload whose only message is the user's prompt, with
  temperature 0.2 and \<open>stream = False\<close>, and nothing else (no retry). Its outcome is
  either the record \<open>{provider, model, text}\<close>, where \<open>text\<close> is the stripped content of
  the first choice's message of that call's response, or \<open>HTTPException 500\<close> with the
  description of the exception that the call, \<open>raise_for_status\<close>, the JSON parsing or
  the extraction raised: a value of a sum type, so never both.
\<close>

theorem chat_one_call_or_error:
  "chat cfg eng prompt model w =
     ((case httpx_post eng w (LMSTUDIO_URL cfg @ py ''/v1/chat/completions'')
              \<lparr>p_model = model, p_messages = [(py ''user'', prompt)], p_temperature = 2 / 10,
               p_stream = False\<rparr> of
         Inl e \<Rightarrow> Inl (HTTPException 500 (py ''LM Studio error: '' @ str_exn eng e))
       | Inr r \<Rightarrow>
          (case raise_for_status r of
             Some e \<Rightarrow> Inl (HTTPException 500 (py ''LM Studio error: '' @ str_exn eng e))
           | None \<Rightarrow>
              (case json_body r of
                 Inl e \<Rightarrow> Inl (HTTPException 500 (py ''LM Studio error: '' @ str_exn eng e))
               | Inr data \<Rightarrow>
                  (case first_choice_content data of
                     Inl e \<Rightarrow> Inl (HTTPException 500 (py ''LM Studio error: '' @ str_exn eng e))
                   | Inr t \<Rightarrow>
                       Inr \<lparr>chat_provider = py ''lmstudio'', chat_model = model, chat_text = t\<rparr>)))),
      w\<lparr>trace := trace w @ [HttpPost (LMSTUDIO_URL cfg @ py ''/v1/chat/completions'')
              \<lparr>p_model = model, p_messages = [(py ''user'', prompt)], p_temperature = 2 / 10,
               p_stream = False\<rparr> 120]\<rparr>)
   \<and> (first_choice_content data = Inr t \<longleftrightarrow>
       (\<exists>kvs ckvs cs mkvs s.
          data = JObj kvs \<and> map_of kvs (py ''choices'') = Some (JArr (JObj ckvs # cs)) \<and>
          map_of ckvs (py ''message'') = Some (JObj mkvs) \<and>
          map_of mkvs (py ''content'') = Some (JStr s) \<and> t = py_strip s))"
proof
  show "chat cfg eng prompt model w =
     ((case httpx_post eng w (LMSTUDIO_URL cfg @ py ''/v1/chat/completions'')
              \<lparr>p_model = model, p_messages = [(py ''user'', prompt)], p_temperature = 2 / 10,
               p_stream = False\<rparr> of
         Inl e \<Rightarrow> Inl (HTTPException 500 (py ''LM Studio error: '' @ str_exn eng e))
       | Inr r \<Rightarrow>
          (case raise_for_status r of
             Some e \<Rightarrow> Inl (HTTPException 500 (py ''LM Studio error: '' @ str_exn eng e))
           | None \<Rightarrow>
              (case json_body r of
                 Inl e \<Rightarrow> Inl (HTTPException 500 (py ''LM Studio error: '' @ str_exn eng e))
               | Inr data \<Rightarrow>
                  (case first_choice_content data of
                     Inl e \<Rightarrow> Inl (HTTPException 500 (py ''LM Studio error: '' @ str_exn eng e))
                   | Inr t \<Rightarrow>
                       Inr \<lparr>chat_provider = py ''lmstudio'', chat_model = model, chat_text = t\<rparr>)))),
      w\<lparr>trace := trace w @ [HttpPost (LMSTUDIO_URL cfg @ py ''/v1/chat/completions'')
              \<lparr>p_model = model, p_messages = [(py ''user'', prompt)], p_temperature = 2 / 10,
               p_stream = False\<rparr> 120]\<rparr>)"
    by (simp add: chat_def try_except_def chat_completion_def bind_def http_post_def lift_def
        ret_def raise_def chat_payload_def split: sum.splits option.splits)
  show "first_choice_content data = Inr t \<longleftrightarrow>
       (\<exists>kvs ckvs cs mkvs s.
          data = JObj kvs \<and> map_of kvs (py ''choices'') = Some (JArr (JObj ckvs # cs)) \<and>
          map_of ckvs (py ''message'') = Some (JObj mkvs) \<and>
          map_of mkvs (py ''content'') = Some (JStr s) \<and> t = py_strip s)"
    by (rule first_choice_content_Inr)
qed

text \<open>A reply with blanks around it comes back trimmed, after one call.\<close>

theorem chat_one_call_or_error_witness:
  "chat example_config (working_engines (py ''  Hi there!  '') [] []) (py ''Hello'') (py ''default'')
      bare_world =
     (Inr \<lparr>chat_provider = py ''lmstudio'', chat_model = py ''default'',
           chat_text = py ''Hi there!''\<rparr>,
      \<lparr>files = Map.empty,
       trace = [HttpPost (py ''http://127.0.0.1:1234/v1/chat/completions'')
                  \<lparr>p_model = py ''default'', p_messages = [(py ''user'', py ''Hello'')],
                   p_temperature = 1 / 5, p_stream = False\<rparr> 120]\<rparr>)"
proof -
  have s: "py_strip (py ''  Hi there!  '') = py ''Hi there!''"
    by (simp add: py_strip_def py_def py_isspace_def)
  have u: "LMSTUDIO_URL example_config @ py ''/v1/chat/completions''
      = py ''http://127.0.0.1:1234/v1/chat/completions''"
    by (simp add: example_config_def py_def)
  show ?thesis
    unfolding chat_one_call_or_error [THEN conjunct1] u
    by (simp add: working_engines_def ok_response_def first_choice_content_completion s
        bare_world_def)
qed

section \<open>/health\<close>

text \<open>
  C6. \<open>/health\<close> never raises: for every outcome of the probe, every configuration and
  every world it returns a report. The backend is reported reachable exactly when the
  GET returned a response with status code 200; an exception gives the note
  \<open>error: ...\<close>, another status the note \<open>HTTP <code>\<close>. Synthesis is reported ready
  exactly when \<open>PIPER_BIN\<close> was resolved, \<open>PIPER_VOICE\<close> is not empty and that path exists
  in the world of the call. Transcription is always reported ready.
\<close>

theorem health_report_total:
  "health cfg eng w =
     (Inr \<lparr>mode = py ''offline'',
           lm_studio =
             \<lparr>lm_url = LMSTUDIO_URL cfg,
              lm_ok = (\<exists>r. httpx_get eng w (LMSTUDIO_URL cfg @ py ''/v1/models'') = Inr r
                          \<and> status_code r = 200),
              lm_note = (case httpx_get eng w (LMSTUDIO_URL cfg @ py ''/v1/models'') of
                           Inl e \<Rightarrow> py ''error: '' @ str_exn eng e
                         | Inr r \<Rightarrow> if status_code r = 200 then py ''ok''
                                    else py ''HTTP '' @ str_nat (status_code r)),
              lm_default_model = LMSTUDIO_MODEL_DEFAULT cfg\<rparr>,
           whisper =
             \<lparr>wh_model = WHISPER_MODEL_NAME cfg, wh_compute = WHISPER_COMPUTE_TYPE cfg,
              wh_ok = True\<rparr>,
           piper =
             \<lparr>pi_bin = (case PIPER_BIN cfg of None \<Rightarrow> [] | Some b \<Rightarrow> b),
              pi_voice = PIPER_VOICE cfg,
              pi_ok = ((\<exists>b. PIPER_BIN cfg = Some b \<and> b \<noteq> []) \<and> PIPER_VOICE cfg \<noteq> []
                       \<and> files w (PIPER_VOICE cfg) \<noteq> None)\<rparr>\<rparr>,
      w\<lparr>trace := trace w @ [HttpGet (LMSTUDIO_URL cfg @ py ''/v1/models'') 3]\<rparr>)"
  by (cases "httpx_get eng w (LMSTUDIO_URL cfg @ py ''/v1/models'')"; cases "PIPER_BIN cfg")
     (simp_all add: health_def health_probe_def try_except_def bind_def http_get_def ret_def
        piper_ok_def bool_PIPER_BIN_def os_path_exists_def PIPER_BIN_or_empty_def)

lemma str_nat_503: "str_nat 503 = py ''503''"
  by (simp add: str_nat.simps py_def)

text \<open>
  The backend answers 503 and the voice file is missing: the report says so, and
  nothing is raised.
\<close>

theorem health_report_total_witness:
  "fst (health example_config
        ((working_engines [] [] [])\<lparr>httpx_get := (\<lambda>w url.
            Inr \<lparr>status_code = 503, raise_for_status = Some (EngineError (py ''Server error'')),
                 json_body = Inr JNull\<rparr>)\<rparr>)
        bare_world) =
     Inr \<lparr>mode = py ''offline'',
          lm_studio = \<lparr>lm_url = py ''http://127.0.0.1:1234'', lm_ok = False,
                       lm_note = py ''HTTP 503'', lm_default_model = py ''default''\<rparr>,
          whisper = \<lparr>wh_model = py ''base'', wh_compute = py ''auto'', wh_ok = True\<rparr>,
          piper = \<lparr>pi_bin = py ''/usr/bin/piper'', pi_voice = py ''/voices/en.onnx'',
                   pi_ok = False\<rparr>\<rparr>"
  unfolding health_report_total
  by (simp add: working_engines_def example_config_def bare_world_def str_nat_503) (simp add: py_def)

section \<open>Base64\<close>

lemma unat_b64_char:
  assumes "i < 64"
  shows "unat (b64_char i) =
     (if i < 26 then 65 + i else if i < 52 then 71 + i else if i < 62 then i - 4
      else if i = 62 then 43 else 47)"
proof -
  have "unat (b64_char i) =
     (if i < 26 then 65 + i else if i < 52 then 97 + (i - 26)
      else if i < 62 then 48 + (i - 52) else if i = 62 then 43 else 47) mod 256"
    by (simp only: b64_char_def unat_of_nat) simp
  also have "\<dots> = (if i < 26 then 65 + i else if i < 52 then 71 + i else if i < 62 then i - 4
      else if i = 62 then 43 else 47)"
    using assms by auto
  finally show ?thesis .
qed

lemma b64_char_ascii: "i < 64 \<Longrightarrow> unat (b64_char i) < 128"
  by (auto simp: unat_b64_char)

lemma b64_char_not_pad: "i < 64 \<Longrightarrow> unat (b64_char i) \<noteq> 61"
  by (auto simp: unat_b64_char)

lemma b64_index_char: "i < 64 \<Longrightarrow> b64_index (unat (b64_char i)) = Some i"
  by (auto simp: unat_b64_char b64_index_def)


lemma div_mod_pack:
  fixes a b k :: nat
  assumes "b < k"
  shows "(a * k + b) div k = a" and "(a * k + b) mod k = b"
  using assms by simp_all

lemma sextets:
  fixes x y z :: nat
  assumes "y < 256" "z < 256"
  shows "x div 4 * 4 + (x mod 4 * 16 + y div 16) div 16 = x"
    and "(x mod 4 * 16 + y div 16) mod 16 * 16 + (y mod 16 * 4 + z div 64) div 4 = y"
    and "(y mod 16 * 4 + z div 64) mod 4 * 64 + z mod 64 = z"
    and "x div 4 * 4 + (x mod 4 * 16) div 16 = x"
    and "(x mod 4 * 16 + y div 16) mod 16 * 16 + (y mod 16 * 4) div 4 = y"
proof -
  have y16: "y div 16 < 16" and z64: "z div 64 < 4"
    using assms by (simp_all add: less_mult_imp_div_less)
  show "x div 4 * 4 + (x mod 4 * 16 + y div 16) div 16 = x"
    by (simp only: div_mod_pack(1) [OF y16]) simp
  show "(x mod 4 * 16 + y div 16) mod 16 * 16 + (y mod 16 * 4 + z div 64) div 4 = y"
    by (simp only: div_mod_pack(2) [OF y16] div_mod_pack(1) [OF z64]) simp
  show "(y mod 16 * 4 + z div 64) mod 4 * 64 + z mod 64 = z"
    by (simp only: div_mod_pack(2) [OF z64]) simp
  show "x div 4 * 4 + (x mod 4 * 16) div 16 = x"
    by simp
  show "(x mod 4 * 16 + y div 16) mod 16 * 16 + (y mod 16 * 4) div 4 = y"
    by (simp only: div_mod_pack(2) [OF y16]) simp
qed

lemma sextet_bounds:
  fixes x y :: nat
  assumes "x < 256" "y < 256"
  shows "x div 4 < 64" "x mod 4 * 16 + y div 16 < 64" "x mod 16 * 4 + y div 64 < 64"
    "x mod 64 < 64" "x mod 4 * 16 < 64" "x mod 16 * 4 < 64"
proof -
  have y16: "y div 16 < 16" and y64: "y div 64 < 4" and x4: "x div 4 < 64"
    using assms by (simp_all add: less_mult_imp_div_less)
  have m4: "x mod 4 < 4" and m16: "x mod 16 < 16" by simp_all
  show "x div 4 < 64" by (rule x4)
  show "x mod 4 * 16 + y div 16 < 64" using m4 y16 by linarith
  show "x mod 16 * 4 + y div 64 < 64" using m16 y64 by linarith
  show "x mod 64 < 64" by simp
  show "x mod 4 * 16 < 64" using m4 by linarith
  show "x mod 16 * 4 < 64" using m16 by linarith
qed

lemma unat_byte: "unat (a :: byte) < 256"
  using unsigned_less [of a, where ?'a = nat] by simp


lemma b64encode_ascii: "b \<in> set (b64encode data) \<Longrightarrow> unat b < 128"
proof (induction data rule: b64encode.induct)
  case 1
  then show ?case by simp
next
  case (2 a)
  note s = sextet_bounds [OF unat_byte [of a] unat_byte [of a]]
  from 2 show ?case by (auto simp: b64_char_ascii s)
next
  case (3 a b)
  note s = sextet_bounds [OF unat_byte [of a] unat_byte [of b]]
    sextet_bounds [OF unat_byte [of b] unat_byte [of b]]
  from 3 show ?case by (auto simp: b64_char_ascii s)
next
  case (4 a b c rest)
  note s = sextet_bounds [OF unat_byte [of a] unat_byte [of b]]
    sextet_bounds [OF unat_byte [of b] unat_byte [of c]]
    sextet_bounds [OF unat_byte [of c] unat_byte [of c]]
  from 4 show ?case by (auto simp: b64_char_ascii s)
qed

lemma decode_ascii_map: "\<forall>b\<in>set bs. unat b < 128 \<Longrightarrow> decode_ascii bs = Inr (map unat bs)"
  by (induction bs) simp_all

lemma decode_ascii_b64encode: "decode_ascii (b64encode data) = Inr (map unat (b64encode data))"
  by (rule decode_ascii_map) (simp add: b64encode_ascii)

lemma b64decode_quad:
  assumes "i0 < 64" "i1 < 64" "i2 < 64" "i3 < 64"
  shows "b64decode (unat (b64_char i0) # unat (b64_char i1) # unat (b64_char i2)
            # unat (b64_char i3) # rest) =
         (case b64decode rest of
            Inl e \<Rightarrow> Inl e
          | Inr bs \<Rightarrow> Inr (of_nat (i0 * 4 + i1 div 16) # of_nat ((i1 mod 16) * 16 + i2 div 4)
                           # of_nat ((i2 mod 4) * 64 + i3) # bs))"
  using assms by (simp add: b64_index_char b64_char_not_pad)

lemma b64decode_pad1:
  assumes "i0 < 64" "i1 < 64" "i2 < 64"
  shows "b64decode [unat (b64_char i0), unat (b64_char i1), unat (b64_char i2), 61] =
         Inr [of_nat (i0 * 4 + i1 div 16), of_nat ((i1 mod 16) * 16 + i2 div 4)]"
  using assms by (simp add: b64_index_char b64_char_not_pad)

lemma b64decode_pad2:
  assumes "i0 < 64" "i1 < 64"
  shows "b64decode [unat (b64_char i0), unat (b64_char i1), 61, 61] =
         Inr [of_nat (i0 * 4 + i1 div 16)]"
  using assms by (simp add: b64_index_char)

lemma b64decode_b64encode: "b64decode (map unat (b64encode data)) = Inr data"
proof (induction data rule: b64encode.induct)
  case 1
  show ?case by simp
next
  case (2 a)
  note s = sextet_bounds [OF unat_byte [of a] unat_byte [of a]]
  have "b64decode (map unat (b64encode [a])) = Inr [of_nat (unat a div 4 * 4 + (unat a mod 4 * 16) div 16)]"
    by (simp add: b64decode_pad2 s del: b64decode.simps)
  then show ?case
    by (simp only: sextets(4) [OF unat_byte [of a] unat_byte [of a]]) simp
next
  case (3 a b)
  note s = sextet_bounds [OF unat_byte [of a] unat_byte [of b]]
    sextet_bounds [OF unat_byte [of b] unat_byte [of b]]
  have "b64decode (map unat (b64encode [a, b])) =
      Inr [of_nat (unat a div 4 * 4 + (unat a mod 4 * 16 + unat b div 16) div 16),
           of_nat ((unat a mod 4 * 16 + unat b div 16) mod 16 * 16 + (unat b mod 16 * 4) div 4)]"
    by (simp add: b64decode_pad1 s del: b64decode.simps)
  then show ?case
    by (simp only: sextets(1,5) [OF unat_byte [of b] unat_byte [of b]]) simp
next
  case (4 a b c rest)
  note s = sextet_bounds [OF unat_byte [of a] unat_byte [of b]]
    sextet_bounds [OF unat_byte [of b] unat_byte [of c]]
    sextet_bounds [OF unat_byte [of c] unat_byte [of c]]
  have "b64decode (map unat (b64encode (a # b # c # rest))) =
      Inr (of_nat (unat a div 4 * 4 + (unat a mod 4 * 16 + unat b div 16) div 16)
         # of_nat ((unat a mod 4 * 16 + unat b div 16) mod 16 * 16
                    + (unat b mod 16 * 4 + unat c div 64) div 4)
         # of_nat ((unat b mod 16 * 4 + unat c div 64) mod 4 * 64 + unat c mod 64) # rest)"
    using "4.IH" by (simp add: b64decode_quad s del: b64decode.simps)
  then show ?case
    by (simp only: sextets(1,2,3) [OF unat_byte [of b] unat_byte [of c]]) simp
qed


lemma base64_round_trip: "sum_bind (decode_ascii (b64encode data)) b64decode = Inr data"
  by (simp add: sum_bind_def decode_ascii_b64encode b64decode_b64encode)

text \<open>
  C9. Whenever the synthesis step of \<open>/voice-chat\<close> is reached with the synthesizer
  configured, the temporary output file is allocated, the synthesizer exits with
  status 0 and leaves the bytes \<open>data\<close> in that file, the step returns a base64 string,
  and decoding that string gives back exactly \<open>data\<close>.
\<close>

theorem voice_chat_audio_round_trip:
  assumes "piper_ok cfg w"
    and "NamedTemporaryFile cfg eng (Some (py ''.wav'')) w = (Inr wav_path, w1)"
    and "subprocess_run eng w1 (piper_args cfg wav_path reply) = (None, fs)"
    and "fs wav_path = Some data"
  shows "\<exists>b64. fst (voice_chat_tts cfg eng reply w) = Inr b64 \<and> b64decode b64 = Inr data"
proof -
  have "fst (voice_chat_tts cfg eng reply w) = Inr (map unat (b64encode data))"
    using assms
    by (simp add: voice_chat_tts_def bind_def try_except_def run_checked_def file_read_def
        lift_def decode_ascii_b64encode os_unlink_def ret_def)
  then show ?thesis by (simp add: b64decode_b64encode)
qed

lemma temp_wav_example:
  "NamedTemporaryFile example_config (working_engines r h wav) (Some (py ''.wav'')) voice_world =
     (Inr (py ''/tmp/tmpk3x9q2ab.wav''),
      voice_world\<lparr>files := (files voice_world)(py ''/tmp/tmpk3x9q2ab.wav'' \<mapsto> [])\<rparr>)"
  by (simp add: NamedTemporaryFile_def working_engines_def example_config_def voice_world_def
      TMP_MAX_def py_def)

text \<open>The synthesizer writes the four bytes \<open>RIFF\<close>; the step returns \<open>UklGRg==\<close>.\<close>

theorem voice_chat_audio_round_trip_witness:
  "piper_ok example_config voice_world
   \<and> NamedTemporaryFile example_config (working_engines [] [] [82, 73, 70, 70]) (Some (py ''.wav''))
        voice_world =
       (Inr (py ''/tmp/tmpk3x9q2ab.wav''),
        voice_world\<lparr>files := (files voice_world)(py ''/tmp/tmpk3x9q2ab.wav'' \<mapsto> [])\<rparr>)
   \<and> fst (voice_chat_tts example_config (working_engines [] [] [82, 73, 70, 70]) (py ''Hi'')
          voice_world) = Inr (py ''UklGRg=='')
   \<and> b64decode (py ''UklGRg=='') = Inr [82, 73, 70, 70]"
proof -
  let ?eng = "working_engines [] [] [82, 73, 70, 70]"
  let ?p = "py ''/tmp/tmpk3x9q2ab.wav''"
  let ?w1 = "voice_world\<lparr>files := (files voice_world)(?p \<mapsto> [])\<rparr>"
  let ?fs = "(files ?w1)(?p \<mapsto> [82, 73, 70, 70])"
  have h1: "piper_ok example_config voice_world"
    by (simp add: piper_ok_def bool_PIPER_BIN_def example_config_def voice_world_def
        os_path_exists_def py_def)
  have h2: "NamedTemporaryFile example_config ?eng (Some (py ''.wav'')) voice_world = (Inr ?p, ?w1)"
    by (rule temp_wav_example)
  have h3: "subprocess_run ?eng ?w1 (piper_args example_config ?p (py ''Hi'')) = (None, ?fs)"
    by (simp add: working_engines_def piper_args_def)
  have h4: "?fs ?p = Some [82, 73, 70, 70]" by simp
  from voice_chat_audio_round_trip [OF h1 h2 h3 h4] obtain b64
    where b: "fst (voice_chat_tts example_config ?eng (py ''Hi'') voice_world) = Inr b64"
      and d: "b64decode b64 = Inr [82, 73, 70, 70]"
    by blast
  have e: "fst (voice_chat_tts example_config ?eng (py ''Hi'') voice_world) = Inr (py ''UklGRg=='')"
    using h1 h2 h3
    by (simp add: voice_chat_tts_def bind_def try_except_def run_checked_def file_read_def
        lift_def os_unlink_def ret_def b64_char_def) (simp add: py_def)
  with b have "b64 = py ''UklGRg==''" by simp
  with d h1 h2 e show ?thesis by simp
qed

section \<open>/tts: streamed delivery\<close>

lemma wav_loop_trace:
  "wav_loop data pos w =
     (Inr (), w\<lparr>trace := trace w
        @ map (\<lambda>i. Yield (py_slice data i (i + 8192))) (py_range pos (length data) 8192)\<rparr>)"
proof (induction data pos w rule: wav_loop.induct)
  case (1 data pos w)
  show ?case
  proof (cases "pos < length data")
    case True
    then have ne: "py_slice data pos (pos + 8192) \<noteq> []"
      by (simp add: py_slice_def)
    have r: "py_range pos (length data) 8192 = pos # py_range (pos + 8192) (length data) 8192"
      using True by (subst py_range.simps) simp
    show ?thesis
      using ne "1.IH" [OF refl ne]
      by (subst wav_loop.simps) (simp add: r Let_def)
  next
    case False
    then have e: "py_slice data pos (pos + 8192) = []"
      by (simp add: py_slice_def)
    have r: "py_range pos (length data) 8192 = []"
      using False by (simp add: py_range_Nil)
    show ?thesis
      by (subst wav_loop.simps) (simp add: e r)
  qed
qed

text \<open>
  C8. If the output file holds \<open>data\<close> when the response body is produced, \<open>wav_iter\<close>
  yields the chunks of \<open>data\<close> in order and then, after the last of them, deletes the
  file: the trace grows by the yields followed by the one \<open>Unlink\<close>. The chunks
  concatenate to \<open>data\<close>, every chunk but the last has exactly 8192 bytes, and none is
  empty or longer.
\<close>

theorem wav_iter_chunks:
  assumes "files w wav_path = Some data"
  shows "wav_iter wav_path w =
      (Inr (), w\<lparr>files := (files w)(wav_path := None),
                 trace := trace w @ map Yield (wav_chunks data) @ [Unlink wav_path]\<rparr>)
    \<and> concat (wav_chunks data) = data
    \<and> (\<forall>c\<in>set (butlast (wav_chunks data)). length c = 8192)
    \<and> (\<forall>c\<in>set (wav_chunks data). 0 < length c \<and> length c \<le> 8192)"
proof (intro conjI)
  show "wav_iter wav_path w =
      (Inr (), w\<lparr>files := (files w)(wav_path := None),
                 trace := trace w @ map Yield (wav_chunks data) @ [Unlink wav_path]\<rparr>)"
    using assms
    by (simp add: wav_iter_def bind_def wav_loop_trace os_unlink_def wav_chunks_def comp_def)
  show "concat (wav_chunks data) = data"
    using concat_slices [of 8192 data 0] by (simp add: wav_chunks_def)
  show "\<forall>c\<in>set (butlast (wav_chunks data)). length c = 8192"
    using butlast_slices [of 8192 _ data 0] by (simp add: wav_chunks_def)
  show "\<forall>c\<in>set (wav_chunks data). 0 < length c \<and> length c \<le> 8192"
  proof
    fix c assume "c \<in> set (wav_chunks data)"
    then show "0 < length c \<and> length c \<le> 8192"
      unfolding wav_chunks_def by (intro slices_bounds [of 8192 c data 0]) simp_all
  qed
qed

lemma wav_chunks_example: "wav_chunks (replicate 8193 7) = [replicate 8192 7, [7]]"
  by (simp add: wav_chunks_def py_range.simps py_slice_def)

text \<open>A file of 8193 bytes: a full chunk, a chunk of one byte, then the deletion.\<close>

theorem wav_iter_chunks_witness:
  "files \<lparr>files = [py ''/tmp/tmpk3x9q2ab.wav'' \<mapsto> replicate 8193 7], trace = []\<rparr>
      (py ''/tmp/tmpk3x9q2ab.wav'') = Some (replicate 8193 7)
   \<and> wav_iter (py ''/tmp/tmpk3x9q2ab.wav'')
        \<lparr>files = [py ''/tmp/tmpk3x9q2ab.wav'' \<mapsto> replicate 8193 7], trace = []\<rparr> =
      (Inr (), \<lparr>files = Map.empty,
                trace = [Yield (replicate 8192 7), Yield [7], Unlink (py ''/tmp/tmpk3x9q2ab.wav'')]\<rparr>)"
proof -
  let ?p = "py ''/tmp/tmpk3x9q2ab.wav''"
  let ?w = "\<lparr>files = [?p \<mapsto> replicate 8193 7], trace = []\<rparr>"
  have h: "files ?w ?p = Some (replicate 8193 7)" by simp
  from wav_iter_chunks [OF h] have "wav_iter ?p ?w =
      (Inr (), ?w\<lparr>files := (files ?w)(?p := None),
                 trace := trace ?w @ map Yield (wav_chunks (replicate 8193 7)) @ [Unlink ?p]\<rparr>)"
    by (rule conjunct1)
  then have "wav_iter ?p ?w =
      (Inr (), \<lparr>files = Map.empty, trace = [Yield (replicate 8192 7), Yield [7], Unlink ?p]\<rparr>)"
    by (simp add: wav_chunks_example)
  with h show ?thesis by (rule conjI)
qed

section \<open>Temporary files and /stt\<close>

lemma mkstemp_inner_Inr:
  "mkstemp_inner fs pre suf ns = Inr p \<Longrightarrow> fs p = None \<and> (\<exists>n. p = pre @ n @ suf)"
  by (induction ns) (auto split: if_splits)

lemma NamedTemporaryFile_Inr:
  assumes "NamedTemporaryFile cfg eng suffix w = (Inr path, w0)"
  shows "files w path = None"
    and "w0 = w\<lparr>files := (files w)(path \<mapsto> [])\<rparr>"
    and "\<exists>n. path = tempdir cfg @ py ''/tmp'' @ n @ (case suffix of None \<Rightarrow> [] | Some s \<Rightarrow> s)"
  using assms mkstemp_inner_Inr [of "files w" "tempdir cfg @ py ''/tmp''"
      "case suffix of None \<Rightarrow> [] | Some s \<Rightarrow> s" "take TMP_MAX (temp_names eng w)" path]
  by (auto simp: NamedTemporaryFile_def split: sum.splits)

lemma NamedTemporaryFile_Inl:
  "NamedTemporaryFile cfg eng suffix w = (Inl e, w0) \<Longrightarrow> w0 = w"
  by (auto simp: NamedTemporaryFile_def split: sum.splits)

lemma stage_upload_Inr:
  assumes "NamedTemporaryFile cfg eng (filename file) w = (Inr path, w0)"
  shows "stage_upload cfg eng file w = (Inr path, w\<lparr>files := (files w)(path \<mapsto> content file)\<rparr>)"
  using assms NamedTemporaryFile_Inr(2) [OF assms]
  by (simp add: stage_upload_def bind_def file_write_def ret_def)

lemma stage_upload_Inl:
  assumes "NamedTemporaryFile cfg eng (filename file) w = (Inl e, w0)"
  shows "stage_upload cfg eng file w = (Inl e, w)"
  using assms NamedTemporaryFile_Inl [OF assms]
  by (simp add: stage_upload_def bind_def)

lemma fresh_removed: "fs p = None \<Longrightarrow> fs(p := None) = fs"
  by (rule ext) simp

text \<open>
  C7, as the code has it. When the temporary file can be created, its name did not
  exist before and ends with the upload's whole filename (so with its extension), and
  the engine is called with the uploaded bytes in that file. If the engine call
  returns, the file is deleted right after it, whatever the segments do later, and the
  files are as they were before the request. If the engine call raises, the handler
  stops there: nothing is deleted and the file stays.
\<close>

theorem stt_temp_file:
  assumes "NamedTemporaryFile cfg eng (filename file) w = (Inr path, w0)"
  shows "files w path = None
    \<and> (\<exists>n. path = tempdir cfg @ py ''/tmp'' @ n @ (case filename file of None \<Rightarrow> [] | Some f \<Rightarrow> f))
    \<and> (case whisper_transcribe eng (w\<lparr>files := (files w)(path \<mapsto> content file)\<rparr>) path lang of
          Inl e \<Rightarrow>
            stt cfg eng file lang w =
              (Inl e, w\<lparr>files := (files w)(path \<mapsto> content file),
                        trace := trace w @ [Transcribe path lang]\<rparr>)
        | Inr (segs, info) \<Rightarrow>
            stt cfg eng file lang w =
              ((case join_segments segs of
                  Inl e \<Rightarrow> Inl e
                | Inr joined \<Rightarrow> Inr \<lparr>stt_text = py_strip joined, stt_language = language info,
                                     stt_duration = duration info\<rparr>),
               w\<lparr>trace := trace w @ [Transcribe path lang, Unlink path]\<rparr>))"
proof (intro conjI)
  note fresh = NamedTemporaryFile_Inr(1) [OF assms]
  show "files w path = None" by (rule fresh)
  show "\<exists>n. path = tempdir cfg @ py ''/tmp'' @ n @ (case filename file of None \<Rightarrow> [] | Some f \<Rightarrow> f)"
    by (rule NamedTemporaryFile_Inr(3) [OF assms])
  show "case whisper_transcribe eng (w\<lparr>files := (files w)(path \<mapsto> content file)\<rparr>) path lang of
          Inl e \<Rightarrow>
            stt cfg eng file lang w =
              (Inl e, w\<lparr>files := (files w)(path \<mapsto> content file),
                        trace := trace w @ [Transcribe path lang]\<rparr>)
        | Inr (segs, info) \<Rightarrow>
            stt cfg eng file lang w =
              ((case join_segments segs of
                  Inl e \<Rightarrow> Inl e
                | Inr joined \<Rightarrow> Inr \<lparr>stt_text = py_strip joined, stt_language = language info,
                                     stt_duration = duration info\<rparr>),
               w\<lparr>trace := trace w @ [Transcribe path lang, Unlink path]\<rparr>)"
    by (simp add: stt_def bind_def stage_upload_Inr [OF assms] transcribe_def os_unlink_def
        lift_def ret_def fresh_removed [of "files w" path, OF fresh] split: sum.splits prod.splits)
qed


lemma temp_upload_example:
  "temp_names eng w = [py ''k3x9q2ab'', py ''p0w4zz7c''] \<Longrightarrow>
   NamedTemporaryFile example_config eng (Some (py ''a.wav'')) bare_world =
     (Inr (py ''/tmp/tmpk3x9q2aba.wav''),
      bare_world\<lparr>files := (files bare_world)(py ''/tmp/tmpk3x9q2aba.wav'' \<mapsto> [])\<rparr>)"
  if "w = bare_world"
  using that
  by (simp add: NamedTemporaryFile_def example_config_def bare_world_def TMP_MAX_def py_def)

text \<open>An upload \<open>a.wav\<close> in which \<open> hello \<close> is heard: staged, transcribed, deleted.\<close>

theorem stt_temp_file_witness:
  "NamedTemporaryFile example_config (working_engines [] (py '' hello '') [])
       (filename \<lparr>filename = Some (py ''a.wav''), content = [1, 2]\<rparr>) bare_world =
     (Inr (py ''/tmp/tmpk3x9q2aba.wav''),
      bare_world\<lparr>files := (files bare_world)(py ''/tmp/tmpk3x9q2aba.wav'' \<mapsto> [])\<rparr>)
   \<and> stt example_config (working_engines [] (py '' hello '') [])
        \<lparr>filename = Some (py ''a.wav''), content = [1, 2]\<rparr> (py ''en'') bare_world =
     (Inr \<lparr>stt_text = py ''hello'', stt_language = py ''en'', stt_duration = 2\<rparr>,
      \<lparr>files = Map.empty,
       trace = [Transcribe (py ''/tmp/tmpk3x9q2aba.wav'') (py ''en''),
                Unlink (py ''/tmp/tmpk3x9q2aba.wav'')]\<rparr>)"
proof -
  let ?eng = "working_engines [] (py '' hello '') []"
  let ?file = "\<lparr>filename = Some (py ''a.wav''), content = [1, 2]\<rparr>"
  let ?p = "py ''/tmp/tmpk3x9q2aba.wav''"
  have h: "NamedTemporaryFile example_config ?eng (filename ?file) bare_world =
     (Inr ?p, bare_world\<lparr>files := (files bare_world)(?p \<mapsto> [])\<rparr>)"
    using temp_upload_example [of bare_world ?eng] by (simp add: working_engines_def)
  have s: "py_strip (py '' hello '') = py ''hello''"
    by (simp add: py_strip_def py_def py_isspace_def)
  have "stt example_config ?eng ?file (py ''en'') bare_world =
     (Inr \<lparr>stt_text = py ''hello'', stt_language = py ''en'', stt_duration = 2\<rparr>,
      \<lparr>files = Map.empty, trace = [Transcribe ?p (py ''en''), Unlink ?p]\<rparr>)"
    using stt_temp_file [OF h, of "py ''en''"]
    by (simp add: working_engines_def s bare_world_def)
  with h show ?thesis by (rule conjI)
qed

text \<open>
  C7 as stated asks for the deletion on every exit path. The engine rejects the audio:
  the request fails with that exception, no \<open>Unlink\<close> happens, and the staged file is
  still there with the uploaded bytes.
\<close>

theorem stt_temp_file_counterexample:
  "fst (stt example_config transcription_fails
          \<lparr>filename = Some (py ''a.wav''), content = [1, 2]\<rparr> (py ''en'') bare_world)
     = Inl (EngineError (py ''Invalid data found when processing input''))
   \<and> trace (snd (stt example_config transcription_fails
          \<lparr>filename = Some (py ''a.wav''), content = [1, 2]\<rparr> (py ''en'') bare_world))
     = [Transcribe (py ''/tmp/tmpk3x9q2aba.wav'') (py ''en'')]
   \<and> files (snd (stt example_config transcription_fails
          \<lparr>filename = Some (py ''a.wav''), content = [1, 2]\<rparr> (py ''en'') bare_world))
        (py ''/tmp/tmpk3x9q2aba.wav'')
     = Some [1, 2]"
proof -
  let ?file = "\<lparr>filename = Some (py ''a.wav''), content = [1, 2]\<rparr>"
  let ?p = "py ''/tmp/tmpk3x9q2aba.wav''"
  have h: "NamedTemporaryFile example_config transcription_fails (filename ?file) bare_world =
     (Inr ?p, bare_world\<lparr>files := (files bare_world)(?p \<mapsto> [])\<rparr>)"
    using temp_upload_example [of bare_world transcription_fails]
    by (simp add: transcription_fails_def working_engines_def)
  have "stt example_config transcription_fails ?file (py ''en'') bare_world =
      (Inl (EngineError (py ''Invalid data found when processing input'')),
       bare_world\<lparr>files := (files bare_world)(?p \<mapsto> [1, 2]),
                   trace := trace bare_world @ [Transcribe ?p (py ''en'')]\<rparr>)"
  proof -
    note su = stage_upload_Inr [OF h]
    have tr: "whisper_transcribe transcription_fails w p l =
        Inl (EngineError (py ''Invalid data found when processing input''))" for w p l
      by (simp add: transcription_fails_def working_engines_def)
    show ?thesis
      by (simp add: stt_def bind_def su transcribe_def tr)
  qed
  then show ?thesis by (simp add: bare_world_def)
qed

section \<open>/voice-chat and /tts\<close>

lemma voice_chat_stt_cases:
  "voice_chat_stt cfg eng file lang w =
     (case NamedTemporaryFile cfg eng (filename file) w of
        (Inl e, w0) \<Rightarrow> (Inl e, w)
      | (Inr apath, w0) \<Rightarrow>
          (case whisper_transcribe eng (w\<lparr>files := (files w)(apath \<mapsto> content file)\<rparr>) apath lang of
             Inl e \<Rightarrow>
               (Inl e, w\<lparr>files := (files w)(apath \<mapsto> content file),
                         trace := trace w @ [Transcribe apath lang]\<rparr>)
           | Inr (segs, info) \<Rightarrow>
               ((case join_segments segs of Inl e \<Rightarrow> Inl e | Inr joined \<Rightarrow> Inr (py_strip joined)),
                w\<lparr>trace := trace w @ [Transcribe apath lang, Unlink apath]\<rparr>)))"
proof (cases "NamedTemporaryFile cfg eng (filename file) w")
  case (Pair r0 w0)
  show ?thesis
  proof (cases r0)
    case (Inl e)
    with Pair have h: "NamedTemporaryFile cfg eng (filename file) w = (Inl e, w0)" by simp
    show ?thesis
      by (simp add: h voice_chat_stt_def bind_def stage_upload_Inl [OF h])
  next
    case (Inr apath)
    with Pair have h: "NamedTemporaryFile cfg eng (filename file) w = (Inr apath, w0)" by simp
    note fresh = NamedTemporaryFile_Inr(1) [OF h]
    show ?thesis
      by (simp add: h voice_chat_stt_def bind_def stage_upload_Inr [OF h] transcribe_def
          os_unlink_def lift_def ret_def fresh_removed [of "files w" apath, OF fresh]
          split: sum.splits prod.splits)
  qed
qed

lemma voice_chat_stt_trace:
  assumes "voice_chat_stt cfg eng file lang w = (r1, w1)"
  shows "\<exists>d. trace w1 = trace w @ d \<and>
     (case r1 of
        Inl e \<Rightarrow> filter is_engine_call d = [] \<or> (\<exists>apath. filter is_engine_call d = [Transcribe apath lang])
      | Inr t \<Rightarrow> (\<exists>apath. filter is_engine_call d = [Transcribe apath lang]) \<and> files w1 = files w)"
  using assms unfolding voice_chat_stt_cases
  by (auto split: prod.splits sum.splits)

lemma voice_chat_reply_cases:
  "voice_chat_reply cfg eng user_text model w =
     (case chat_completion cfg eng user_text model w of
        (Inl e, w') \<Rightarrow> (Inl (HTTPException 500 (py ''LM Studio error: '' @ str_exn eng e)), w')
      | (Inr t, w') \<Rightarrow> (Inr t, w'))"
  by (simp add: voice_chat_reply_def try_except_def raise_def split: prod.splits sum.splits)

lemma voice_chat_reply_world:
  assumes "voice_chat_reply cfg eng user_text model w = (r2, w2)"
  shows "w2 = w\<lparr>trace := trace w @ [HttpPost (LMSTUDIO_URL cfg @ py ''/v1/chat/completions'')
                                  (chat_payload model user_text) 120]\<rparr>"
proof -
  obtain r w' where c: "chat_completion cfg eng user_text model w = (r, w')"
    by (cases "chat_completion cfg eng user_text model w")
  from assms have "w2 = w'"
    by (cases r) (simp_all add: voice_chat_reply_cases c)
  with chat_completion_world [OF c] show ?thesis by simp
qed

lemma voice_chat_reply_error:
  assumes "voice_chat_reply cfg eng user_text model w = (Inl e, w2)"
  shows "\<exists>cause. e = HTTPException 500 (py ''LM Studio error: '' @ cause)"
  using assms by (auto simp: voice_chat_reply_cases split: prod.splits sum.splits)

lemma voice_chat_tts_cases:
  "voice_chat_tts cfg eng reply w =
     (if \<not> piper_ok cfg w then
        (Inl (HTTPException 501 (py ''Piper TTS not configured for /voice-chat.'')), w)
      else
        (case NamedTemporaryFile cfg eng (Some (py ''.wav'')) w of
           (Inl e, w0) \<Rightarrow> (Inl e, w)
         | (Inr wav_path, w0) \<Rightarrow>
            (case subprocess_run eng w0 (piper_args cfg wav_path reply) of
               (Some e, fs) \<Rightarrow>
                 (Inl (HTTPException 500 (py ''Piper TTS error: '' @ str_exn eng e)),
                  w\<lparr>files := fs, trace := trace w @ [Subprocess (piper_args cfg wav_path reply)]\<rparr>)
             | (None, fs) \<Rightarrow>
                 (case fs wav_path of
                    None \<Rightarrow>
                      (Inl (HTTPException 500
                             (py ''Piper TTS error: '' @ str_exn eng (FileNotFoundError wav_path))),
                       w\<lparr>files := fs, trace := trace w @ [Subprocess (piper_args cfg wav_path reply)]\<rparr>)
                  | Some data \<Rightarrow>
                      (Inr (map unat (b64encode data)),
                       w\<lparr>files := fs(wav_path := None),
                         trace := trace w @ [Subprocess (piper_args cfg wav_path reply),
                                             Unlink wav_path]\<rparr>)))))"
proof (cases "piper_ok cfg w")
  case False
  then show ?thesis by (simp add: voice_chat_tts_def raise_def)
next
  case True
  show ?thesis
  proof (cases "NamedTemporaryFile cfg eng (Some (py ''.wav'')) w")
    case (Pair r0 w0)
    show ?thesis
    proof (cases r0)
      case (Inl e)
      with Pair True NamedTemporaryFile_Inl [of cfg eng "Some (py ''.wav'')" w e w0]
      show ?thesis by (simp add: voice_chat_tts_def bind_def)
    next
      case (Inr wav_path)
      with Pair have h: "NamedTemporaryFile cfg eng (Some (py ''.wav'')) w = (Inr wav_path, w0)"
        by simp
      note w0 = NamedTemporaryFile_Inr(2) [OF h]
      obtain r fs where run: "subprocess_run eng w0 (piper_args cfg wav_path reply) = (r, fs)"
        by (cases "subprocess_run eng w0 (piper_args cfg wav_path reply)")
      show ?thesis
      proof (cases r)
        case (Some e)
        with True run show ?thesis
          by (simp add: h voice_chat_tts_def bind_def try_except_def run_checked_def raise_def w0)
      next
        case None
        show ?thesis
        proof (cases "fs wav_path")
          case N: None
          with True run None show ?thesis
            by (simp add: h voice_chat_tts_def bind_def try_except_def run_checked_def
                file_read_def raise_def w0)
        next
          case (Some data)
          with True run None show ?thesis
            by (simp add: h voice_chat_tts_def bind_def try_except_def run_checked_def
                file_read_def lift_def decode_ascii_b64encode os_unlink_def ret_def w0)
        qed
      qed
    qed
  qed
qed

lemma voice_chat_tts_trace:
  assumes "voice_chat_tts cfg eng reply w = (r3, w3)"
  shows "\<exists>d. trace w3 = trace w @ d \<and>
     (case r3 of
        Inl e \<Rightarrow> filter is_engine_call d = []
                 \<or> (\<exists>wav_path. filter is_engine_call d = [Subprocess (piper_args cfg wav_path reply)])
      | Inr b64 \<Rightarrow> (\<exists>wav_path. filter is_engine_call d = [Subprocess (piper_args cfg wav_path reply)]))"
  using assms unfolding voice_chat_tts_cases
  by (auto split: prod.splits sum.splits option.splits if_splits)

lemma voice_chat_unfold:
  "voice_chat cfg eng file model lang w =
     (case voice_chat_stt cfg eng file lang w of
        (Inl e, w1) \<Rightarrow> (Inl e, w1)
      | (Inr user_text, w1) \<Rightarrow>
          (case voice_chat_reply cfg eng user_text model w1 of
             (Inl e, w2) \<Rightarrow> (Inl e, w2)
           | (Inr reply, w2) \<Rightarrow>
               (case voice_chat_tts cfg eng reply w2 of
                  (Inl e, w3) \<Rightarrow> (Inl e, w3)
                | (Inr b64, w3) \<Rightarrow>
                    (Inr \<lparr>vc_text = reply, vc_mime = py ''audio/wav'', vc_audio_base64 = b64,
                          vc_prompt = user_text\<rparr>, w3))))"
  by (simp add: voice_chat_def bind_def ret_def split: prod.splits sum.splits)

text \<open>
  C5. The engine calls of a \<open>/voice-chat\<close> request are, in this order, at most one
  transcription, then at most one chat call, then at most one synthesizer run, and a
  later stage runs only if the earlier ones succeeded. If transcription fails, the
  result is its error and neither chat nor synthesis is called. If the chat stage
  fails, the result is its error (\<open>HTTPException 500\<close>) and the synthesizer is not
  called. If the synthesis stage fails, the result is its error. The result is a
  value of a sum type, an error or a response, so no partial result comes with an
  error. On success the response holds the reply, the mime type \<open>audio/wav\<close>, the
  base64 string of the synthesis stage and the transcript, and all three engines were
  called once, in order.
\<close>

theorem voice_chat_pipeline:
  assumes "voice_chat cfg eng file model lang w = (r, w')"
  shows "\<exists>calls. trace w' = trace w @ calls \<and>
     (case voice_chat_stt cfg eng file lang w of
        (Inl e, w1) \<Rightarrow>
          r = Inl e \<and> w' = w1 \<and>
          (filter is_engine_call calls = []
           \<or> (\<exists>apath. filter is_engine_call calls = [Transcribe apath lang]))
      | (Inr user_text, w1) \<Rightarrow>
          (case voice_chat_reply cfg eng user_text model w1 of
             (Inl e, w2) \<Rightarrow>
               r = Inl e \<and> w' = w2 \<and>
               (\<exists>cause. e = HTTPException 500 (py ''LM Studio error: '' @ cause)) \<and>
               (\<exists>apath. filter is_engine_call calls =
                  [Transcribe apath lang,
                   HttpPost (LMSTUDIO_URL cfg @ py ''/v1/chat/completions'')
                     (chat_payload model user_text) 120])
           | (Inr reply, w2) \<Rightarrow>
               (case voice_chat_tts cfg eng reply w2 of
                  (Inl e, w3) \<Rightarrow>
                    r = Inl e \<and> w' = w3 \<and>
                    (\<exists>apath.
                       filter is_engine_call calls =
                         [Transcribe apath lang,
                          HttpPost (LMSTUDIO_URL cfg @ py ''/v1/chat/completions'')
                            (chat_payload model user_text) 120]
                       \<or> (\<exists>wav_path. filter is_engine_call calls =
                         [Transcribe apath lang,
                          HttpPost (LMSTUDIO_URL cfg @ py ''/v1/chat/completions'')
                            (chat_payload model user_text) 120,
                          Subprocess (piper_args cfg wav_path reply)]))
                | (Inr b64, w3) \<Rightarrow>
                    r = Inr \<lparr>vc_text = reply, vc_mime = py ''audio/wav'', vc_audio_base64 = b64,
                             vc_prompt = user_text\<rparr> \<and> w' = w3 \<and>
                    (\<exists>apath wav_path. filter is_engine_call calls =
                         [Transcribe apath lang,
                          HttpPost (LMSTUDIO_URL cfg @ py ''/v1/chat/completions'')
                            (chat_payload model user_text) 120,
                          Subprocess (piper_args cfg wav_path reply)]))))"
proof -
  let ?post = "\<lambda>user_text. HttpPost (LMSTUDIO_URL cfg @ py ''/v1/chat/completions'')
                            (chat_payload model user_text) 120"
  obtain r1 w1 where s1: "voice_chat_stt cfg eng file lang w = (r1, w1)"
    by (cases "voice_chat_stt cfg eng file lang w")
  from voice_chat_stt_trace [OF s1] obtain d1 where
    t1: "trace w1 = trace w @ d1" and
    c1: "case r1 of
           Inl e \<Rightarrow> filter is_engine_call d1 = [] \<or> (\<exists>apath. filter is_engine_call d1 = [Transcribe apath lang])
         | Inr t \<Rightarrow> (\<exists>apath. filter is_engine_call d1 = [Transcribe apath lang]) \<and> files w1 = files w"
    by blast
  show ?thesis
  proof (cases r1)
    case (Inl e)
    with assms s1 have "r = Inl e" "w' = w1" by (simp_all add: voice_chat_unfold)
    with Inl s1 t1 c1 show ?thesis by (intro exI [of _ d1]) simp
  next
    case (Inr user_text)
    with c1 obtain apath where a: "filter is_engine_call d1 = [Transcribe apath lang]" by auto
    obtain r2 w2 where s2: "voice_chat_reply cfg eng user_text model w1 = (r2, w2)"
      by (cases "voice_chat_reply cfg eng user_text model w1")
    have t2: "trace w2 = trace w @ d1 @ [?post user_text]"
      using voice_chat_reply_world [OF s2] t1 by simp
    show ?thesis
    proof (cases r2)
      case e: (Inl e)
      with assms s1 s2 Inr have "r = Inl e" "w' = w2" by (simp_all add: voice_chat_unfold)
      moreover from voice_chat_reply_error [OF s2 [unfolded e]]
      have "\<exists>cause. e = HTTPException 500 (py ''LM Studio error: '' @ cause)" .
      ultimately show ?thesis
        using Inr e s1 s2 t2 a by (intro exI [of _ "d1 @ [?post user_text]"]) auto
    next
      case rep: (Inr reply)
      obtain r3 w3 where s3: "voice_chat_tts cfg eng reply w2 = (r3, w3)"
        by (cases "voice_chat_tts cfg eng reply w2")
      from voice_chat_tts_trace [OF s3] obtain d3 where
        t3: "trace w3 = trace w2 @ d3" and
        c3: "case r3 of
           Inl e \<Rightarrow> filter is_engine_call d3 = []
                 \<or> (\<exists>wav_path. filter is_engine_call d3 = [Subprocess (piper_args cfg wav_path reply)])
         | Inr b64 \<Rightarrow> (\<exists>wav_path. filter is_engine_call d3 = [Subprocess (piper_args cfg wav_path reply)])"
        by blast
      have t: "trace w3 = trace w @ (d1 @ [?post user_text] @ d3)"
        using t2 t3 by simp
      show ?thesis
      proof (cases r3)
        case e: (Inl e)
        with assms s1 s2 s3 Inr rep have "r = Inl e" "w' = w3" by (simp_all add: voice_chat_unfold)
        then show ?thesis
          using Inr rep e s1 s2 s3 t a c3
          by (intro exI [of _ "d1 @ [?post user_text] @ d3"]) auto
      next
        case b: (Inr b64)
        with assms s1 s2 s3 Inr rep
        have "r = Inr \<lparr>vc_text = reply, vc_mime = py ''audio/wav'', vc_audio_base64 = b64,
                             vc_prompt = user_text\<rparr>" "w' = w3"
          by (simp_all add: voice_chat_unfold)
        then show ?thesis
          using Inr rep b s1 s2 s3 t a c3
          by (intro exI [of _ "d1 @ [?post user_text] @ d3"]) auto
      qed
    qed
  qed
qed


lemma piper_ok_iff:
  "piper_ok cfg w \<longleftrightarrow>
     (\<exists>b. PIPER_BIN cfg = Some b \<and> b \<noteq> []) \<and> PIPER_VOICE cfg \<noteq> [] \<and> files w (PIPER_VOICE cfg) \<noteq> None"
  by (cases "PIPER_BIN cfg") (simp_all add: piper_ok_def bool_PIPER_BIN_def os_path_exists_def)

lemma piper_ok_files: "files w' = files w \<Longrightarrow> piper_ok cfg w' = piper_ok cfg w"
  by (simp add: piper_ok_def os_path_exists_def)

lemma no_subprocess:
  assumes "filter is_engine_call calls = cs" and "\<forall>args. Subprocess args \<notin> set cs"
  shows "Subprocess args \<notin> set calls"
proof
  assume "Subprocess args \<in> set calls"
  then have "Subprocess args \<in> set (filter is_engine_call calls)" by simp
  with assms show False by simp
qed

text \<open>
  C4, as the code has it. Let the synthesizer be unresolved, or the voice path not
  configured, or the voice file absent from the world in which the request arrives.
  Then \<open>/tts\<close> is rejected with 501 at once: no engine is called and the world is
  unchanged. \<open>/voice-chat\<close> never runs the synthesizer either, but it makes the check
  only when it reaches the synthesis stage: transcription and chat run first, the
  request fails with their error if one of them fails, and it is rejected with 501
  only when both have succeeded.
\<close>

theorem synthesis_not_configured:
  assumes "\<not> ((\<exists>b. PIPER_BIN cfg = Some b \<and> b \<noteq> []) \<and> PIPER_VOICE cfg \<noteq> []
               \<and> files w (PIPER_VOICE cfg) \<noteq> None)"
  shows "tts cfg eng text w =
       (Inl (HTTPException 501 (py ''Piper TTS not configured. Set PIPER_BIN and PIPER_VOICE.'')), w)
    \<and> voice_chat cfg eng file model lang w =
       (case voice_chat_stt cfg eng file lang w of
          (Inl e, w1) \<Rightarrow> (Inl e, w1)
        | (Inr user_text, w1) \<Rightarrow>
            (case voice_chat_reply cfg eng user_text model w1 of
               (Inl e, w2) \<Rightarrow> (Inl e, w2)
             | (Inr reply, w2) \<Rightarrow>
                 (Inl (HTTPException 501 (py ''Piper TTS not configured for /voice-chat.'')), w2)))
    \<and> (\<exists>calls. trace (snd (voice_chat cfg eng file model lang w)) = trace w @ calls
               \<and> (\<forall>args. Subprocess args \<notin> set calls))"
proof -
  have no: "\<not> piper_ok cfg w" unfolding piper_ok_iff by (rule assms)
  have T: "tts cfg eng text w =
       (Inl (HTTPException 501 (py ''Piper TTS not configured. Set PIPER_BIN and PIPER_VOICE.'')), w)"
    using no by (simp add: tts_def raise_def)
  have K: "voice_chat_tts cfg eng reply w2 =
       (Inl (HTTPException 501 (py ''Piper TTS not configured for /voice-chat.'')), w2)"
    if "voice_chat_stt cfg eng file lang w = (Inr user_text, w1)"
      and "voice_chat_reply cfg eng user_text model w1 = (r2, w2)" for user_text w1 r2 w2 reply
  proof -
    from voice_chat_stt_trace [OF that(1)] have "files w1 = files w" by auto
    moreover from voice_chat_reply_world [OF that(2)] have "files w2 = files w1" by simp
    ultimately have "\<not> piper_ok cfg w2" using no piper_ok_files [of w2 w cfg] by simp
    then show ?thesis by (simp add: voice_chat_tts_cases)
  qed
  have V: "voice_chat cfg eng file model lang w =
       (case voice_chat_stt cfg eng file lang w of
          (Inl e, w1) \<Rightarrow> (Inl e, w1)
        | (Inr user_text, w1) \<Rightarrow>
            (case voice_chat_reply cfg eng user_text model w1 of
               (Inl e, w2) \<Rightarrow> (Inl e, w2)
             | (Inr reply, w2) \<Rightarrow>
                 (Inl (HTTPException 501 (py ''Piper TTS not configured for /voice-chat.'')), w2)))"
    by (simp add: voice_chat_unfold K split: prod.splits sum.splits)
  have C: "\<exists>calls. trace (snd (voice_chat cfg eng file model lang w)) = trace w @ calls
               \<and> (\<forall>args. Subprocess args \<notin> set calls)"
  proof -
    obtain r1 w1 where s1: "voice_chat_stt cfg eng file lang w = (r1, w1)"
      by (cases "voice_chat_stt cfg eng file lang w")
    from voice_chat_stt_trace [OF s1] obtain d1 where
      t1: "trace w1 = trace w @ d1" and
      c1: "filter is_engine_call d1 = [] \<or> (\<exists>apath. filter is_engine_call d1 = [Transcribe apath lang])"
      by (cases r1) auto
    have n1: "Subprocess args \<notin> set d1" for args
    proof (rule disjE [OF c1])
      assume "filter is_engine_call d1 = []"
      then show ?thesis by (rule no_subprocess) simp
    next
      assume "\<exists>apath. filter is_engine_call d1 = [Transcribe apath lang]"
      then obtain apath where "filter is_engine_call d1 = [Transcribe apath lang]" ..
      then show ?thesis by (rule no_subprocess) simp
    qed
    show ?thesis
    proof (cases r1)
      case (Inl e)
      with s1 have "snd (voice_chat cfg eng file model lang w) = w1" by (simp add: V)
      with t1 n1 show ?thesis by auto
    next
      case (Inr user_text)
      obtain r2 w2 where s2: "voice_chat_reply cfg eng user_text model w1 = (r2, w2)"
        by (cases "voice_chat_reply cfg eng user_text model w1")
      from s1 s2 Inr have "snd (voice_chat cfg eng file model lang w) = w2"
        by (cases r2) (simp_all add: V)
      moreover have "trace w2 = trace w @ (d1 @ [HttpPost (LMSTUDIO_URL cfg @ py ''/v1/chat/completions'')
                                  (chat_payload model user_text) 120])"
        using voice_chat_reply_world [OF s2] t1 by simp
      ultimately show ?thesis using n1 by auto
    qed
  qed
  from T V C show ?thesis by (intro conjI)
qed

lemma stt_stage_example:
  assumes "files w (py ''/tmp/tmpk3x9q2aba.wav'') = None"
  shows "voice_chat_stt example_config (working_engines reply (py '' hello '') wav)
           \<lparr>filename = Some (py ''a.wav''), content = [1, 2]\<rparr> (py ''en'') w =
         (Inr (py ''hello''),
          w\<lparr>trace := trace w @ [Transcribe (py ''/tmp/tmpk3x9q2aba.wav'') (py ''en''),
                                Unlink (py ''/tmp/tmpk3x9q2aba.wav'')]\<rparr>)"
proof -
  have s: "py_strip (py '' hello '') = py ''hello''"
    by (simp add: py_strip_def py_def py_isspace_def)
  have t: "NamedTemporaryFile example_config (working_engines reply (py '' hello '') wav)
      (Some (py ''a.wav'')) w =
      (Inr (py ''/tmp/tmpk3x9q2aba.wav''), w\<lparr>files := (files w)(py ''/tmp/tmpk3x9q2aba.wav'' \<mapsto> [])\<rparr>)"
    using assms
    by (simp add: NamedTemporaryFile_def example_config_def working_engines_def TMP_MAX_def py_def)
  have tr: "whisper_transcribe (working_engines reply (py '' hello '') wav) w' p l =
      Inr (Segments [py '' hello ''] None, \<lparr>language = l, duration = 2\<rparr>)" for w' p l
    by (simp add: working_engines_def)
  show ?thesis
    by (simp add: voice_chat_stt_cases t tr s)
qed

lemma reply_stage_example:
  "voice_chat_reply example_config (working_engines (py ''Hi there'') heard wav) user_text model w =
     (Inr (py ''Hi there''),
      w\<lparr>trace := trace w @ [HttpPost (LMSTUDIO_URL example_config @ py ''/v1/chat/completions'')
                               (chat_payload model user_text) 120]\<rparr>)"
proof -
  have s: "py_strip (py ''Hi there'') = py ''Hi there''"
    by (simp add: py_strip_def py_def py_isspace_def)
  show ?thesis
    by (simp add: voice_chat_reply_cases chat_completion_working s)
qed

lemma tts_stage_example:
  assumes "files w (py ''/voices/en.onnx'') \<noteq> None" and "files w (py ''/tmp/tmpk3x9q2ab.wav'') = None"
  shows "fst (voice_chat_tts example_config (working_engines r h [82, 73, 70, 70]) reply w)
      = Inr (py ''UklGRg=='')"
proof -
  have ok: "piper_ok example_config w"
    using assms(1) by (simp add: piper_ok_iff example_config_def py_def)
  have t: "NamedTemporaryFile example_config (working_engines r h [82, 73, 70, 70])
      (Some (py ''.wav'')) w =
      (Inr (py ''/tmp/tmpk3x9q2ab.wav''), w\<lparr>files := (files w)(py ''/tmp/tmpk3x9q2ab.wav'' \<mapsto> [])\<rparr>)"
    using assms(2)
    by (simp add: NamedTemporaryFile_def example_config_def working_engines_def TMP_MAX_def py_def)
  have run: "subprocess_run (working_engines r h [82, 73, 70, 70]) w'
        (piper_args example_config p reply) = (None, (files w')(p \<mapsto> [82, 73, 70, 70]))" for w' p
    by (simp add: working_engines_def piper_args_def)
  have b: "map unat (b64encode [82, 73, 70, 70]) = py ''UklGRg==''"
    by (simp add: unat_b64_char py_def)
  show ?thesis
    by (simp add: voice_chat_tts_cases ok t run b del: b64encode.simps)
qed

text \<open>
  An upload in which \<open>hello\<close> is heard, answered by \<open>Hi there\<close>, spoken as the bytes
  \<open>RIFF\<close>: the response has all four fields, and the three engines ran in order.
\<close>

theorem voice_chat_pipeline_witness:
  "fst (voice_chat example_config (working_engines (py ''Hi there'') (py '' hello '') [82, 73, 70, 70])
          \<lparr>filename = Some (py ''a.wav''), content = [1, 2]\<rparr> (py ''default'') (py ''en'') voice_world)
     = Inr \<lparr>vc_text = py ''Hi there'', vc_mime = py ''audio/wav'',
            vc_audio_base64 = py ''UklGRg=='', vc_prompt = py ''hello''\<rparr>
   \<and> (\<exists>calls apath wav_path.
        trace (snd (voice_chat example_config
          (working_engines (py ''Hi there'') (py '' hello '') [82, 73, 70, 70])
          \<lparr>filename = Some (py ''a.wav''), content = [1, 2]\<rparr> (py ''default'') (py ''en'') voice_world))
          = trace voice_world @ calls
        \<and> filter is_engine_call calls =
           [Transcribe apath (py ''en''),
            HttpPost (LMSTUDIO_URL example_config @ py ''/v1/chat/completions'')
              (chat_payload (py ''default'') (py ''hello'')) 120,
            Subprocess (piper_args example_config wav_path (py ''Hi there''))])"
proof -
  let ?eng = "working_engines (py ''Hi there'') (py '' hello '') [82, 73, 70, 70]"
  let ?up = "\<lparr>filename = Some (py ''a.wav''), content = [1, 2]\<rparr>"
  let ?P = "py ''/tmp/tmpk3x9q2aba.wav''"
  let ?W1 = "voice_world\<lparr>trace := trace voice_world @ [Transcribe ?P (py ''en''), Unlink ?P]\<rparr>"
  let ?W2 = "?W1\<lparr>trace := trace ?W1 @ [HttpPost (LMSTUDIO_URL example_config @ py ''/v1/chat/completions'')
                               (chat_payload (py ''default'') (py ''hello'')) 120]\<rparr>"
  let ?run = "voice_chat example_config ?eng ?up (py ''default'') (py ''en'') voice_world"
  have E1: "voice_chat_stt example_config ?eng ?up (py ''en'') voice_world = (Inr (py ''hello''), ?W1)"
    by (rule stt_stage_example) (simp add: voice_world_def py_def)
  have E2: "voice_chat_reply example_config ?eng (py ''hello'') (py ''default'') ?W1
      = (Inr (py ''Hi there''), ?W2)"
    by (rule reply_stage_example)
  have "fst (voice_chat_tts example_config ?eng (py ''Hi there'') ?W2) = Inr (py ''UklGRg=='')"
    by (rule tts_stage_example) (simp_all add: voice_world_def py_def)
  then obtain W3 where E3: "voice_chat_tts example_config ?eng (py ''Hi there'') ?W2
      = (Inr (py ''UklGRg==''), W3)"
    by (cases "voice_chat_tts example_config ?eng (py ''Hi there'') ?W2") simp
  have h: "?run = (fst ?run, snd ?run)" by simp
  note main = voice_chat_pipeline [OF h, unfolded E1 E2 E3 prod.case sum.case]
  then obtain calls apath wav_path where
    t: "trace (snd ?run) = trace voice_world @ calls"
    and r: "fst ?run = Inr \<lparr>vc_text = py ''Hi there'', vc_mime = py ''audio/wav'',
            vc_audio_base64 = py ''UklGRg=='', vc_prompt = py ''hello''\<rparr>"
    and c: "filter is_engine_call calls =
           [Transcribe apath (py ''en''),
            HttpPost (LMSTUDIO_URL example_config @ py ''/v1/chat/completions'')
              (chat_payload (py ''default'') (py ''hello'')) 120,
            Subprocess (piper_args example_config wav_path (py ''Hi there''))]"
    by (elim exE conjE)
  from t c have "\<exists>calls apath wav_path.
        trace (snd ?run) = trace voice_world @ calls
        \<and> filter is_engine_call calls =
           [Transcribe apath (py ''en''),
            HttpPost (LMSTUDIO_URL example_config @ py ''/v1/chat/completions'')
              (chat_payload (py ''default'') (py ''hello'')) 120,
            Subprocess (piper_args example_config wav_path (py ''Hi there''))]"
    by (intro exI conjI)
  with r show ?thesis by (rule conjI)
qed


text \<open>The voice file is missing: \<open>/tts\<close> is rejected at once, the world untouched.\<close>

theorem synthesis_not_configured_witness:
  "\<not> ((\<exists>b. PIPER_BIN example_config = Some b \<and> b \<noteq> []) \<and> PIPER_VOICE example_config \<noteq> []
        \<and> files bare_world (PIPER_VOICE example_config) \<noteq> None)
   \<and> tts example_config (working_engines [] [] []) (py ''Hi'') bare_world =
       (Inl (HTTPException 501 (py ''Piper TTS not configured. Set PIPER_BIN and PIPER_VOICE.'')),
        bare_world)"
proof -
  have h: "\<not> ((\<exists>b. PIPER_BIN example_config = Some b \<and> b \<noteq> []) \<and> PIPER_VOICE example_config \<noteq> []
        \<and> files bare_world (PIPER_VOICE example_config) \<noteq> None)"
    by (simp add: bare_world_def)
  from h synthesis_not_configured [OF h, THEN conjunct1] show ?thesis by (rule conjI)
qed

text \<open>
  C4 as stated wants \<open>/voice-chat\<close> rejected before any engine is invoked. The voice
  file is missing when the request arrives; the request is rejected with 501, but
  only after the transcription engine and the chat backend have been called.
\<close>

theorem synthesis_not_configured_counterexample:
  "files bare_world (PIPER_VOICE example_config) = None
   \<and> fst (voice_chat example_config (working_engines (py ''Hi there'') (py '' hello '') [])
          \<lparr>filename = Some (py ''a.wav''), content = [1, 2]\<rparr> (py ''default'') (py ''en'') bare_world)
     = Inl (HTTPException 501 (py ''Piper TTS not configured for /voice-chat.''))
   \<and> trace (snd (voice_chat example_config (working_engines (py ''Hi there'') (py '' hello '') [])
          \<lparr>filename = Some (py ''a.wav''), content = [1, 2]\<rparr> (py ''default'') (py ''en'') bare_world))
     = [Transcribe (py ''/tmp/tmpk3x9q2aba.wav'') (py ''en''),
        Unlink (py ''/tmp/tmpk3x9q2aba.wav''),
        HttpPost (LMSTUDIO_URL example_config @ py ''/v1/chat/completions'')
          (chat_payload (py ''default'') (py ''hello'')) 120]"
proof -
  let ?eng = "working_engines (py ''Hi there'') (py '' hello '') []"
  let ?up = "\<lparr>filename = Some (py ''a.wav''), content = [1, 2]\<rparr>"
  let ?P = "py ''/tmp/tmpk3x9q2aba.wav''"
  let ?W1 = "bare_world\<lparr>trace := trace bare_world @ [Transcribe ?P (py ''en''), Unlink ?P]\<rparr>"
  let ?W2 = "?W1\<lparr>trace := trace ?W1 @ [HttpPost (LMSTUDIO_URL example_config @ py ''/v1/chat/completions'')
                               (chat_payload (py ''default'') (py ''hello'')) 120]\<rparr>"
  have a: "files bare_world (PIPER_VOICE example_config) = None"
    by (simp add: bare_world_def)
  have E1: "voice_chat_stt example_config ?eng ?up (py ''en'') bare_world = (Inr (py ''hello''), ?W1)"
    by (rule stt_stage_example) (simp add: bare_world_def)
  have E2: "voice_chat_reply example_config ?eng (py ''hello'') (py ''default'') ?W1
      = (Inr (py ''Hi there''), ?W2)"
    by (rule reply_stage_example)
  have "\<not> piper_ok example_config ?W2"
    by (simp add: piper_ok_iff bare_world_def)
  then have E3: "voice_chat_tts example_config ?eng (py ''Hi there'') ?W2
      = (Inl (HTTPException 501 (py ''Piper TTS not configured for /voice-chat.'')), ?W2)"
    by (simp add: voice_chat_tts_cases)
  have "voice_chat example_config ?eng ?up (py ''default'') (py ''en'') bare_world
      = (Inl (HTTPException 501 (py ''Piper TTS not configured for /voice-chat.'')), ?W2)"
    unfolding voice_chat_unfold E1 prod.case sum.case E2 E3 ..
  then have "fst (voice_chat example_config ?eng ?up (py ''default'') (py ''en'') bare_world)
      = Inl (HTTPException 501 (py ''Piper TTS not configured for /voice-chat.''))"
    and "trace (snd (voice_chat example_config ?eng ?up (py ''default'') (py ''en'') bare_world))
      = [Transcribe ?P (py ''en''), Unlink ?P,
         HttpPost (LMSTUDIO_URL example_config @ py ''/v1/chat/completions'')
          (chat_payload (py ''default'') (py ''hello'')) 120]"
    by (simp_all add: bare_world_def)
  with a show ?thesis by (intro conjI)
qed

end
